theory Spec2Isabelle
  imports Main
begin

section \<open>The email plugin: data model\<close>

text \<open>
  The development follows \<^verbatim>\<open>packages/email-plugin/src/plugin.ts\<close>. The plugin is a class
  with three private fields, one static field and five injected collaborators. Its methods
  are asynchronous, mutate the fields and the received event object, and call the
  collaborators. They are embedded as programs over an explicit system state that either
  return a value or raise an error value.
\<close>

subsection \<open>Errors and asynchronous programs\<close>

text \<open>
  A raised value is any JavaScript value: a promise may be rejected with
  \<^verbatim>\<open>undefined\<close> (no reason given) or \<^verbatim>\<open>null\<close>, or with a value that has properties.
  Of such a value the plugin reads the \<^verbatim>\<open>message\<close> and \<^verbatim>\<open>stack\<close> properties only,
  and each is a string or \<^verbatim>\<open>undefined\<close>: both are strings for an \<^verbatim>\<open>Error\<close> object,
  both are \<^verbatim>\<open>undefined\<close> for a thrown string or number.
\<close>

datatype error =
    Undefined
  | Null
  | Value (message: "string option") (stack: "string option")

abbreviation Error :: "string \<Rightarrow> string \<Rightarrow> error" where
  "Error m st \<equiv> Value (Some m) (Some st)"

text \<open>The values a property cannot be read of.\<close>

fun nullish :: "error \<Rightarrow> bool" where
  "nullish Undefined = True"
| "nullish Null = True"
| "nullish (Value m st) = False"

text \<open>
  An asynchronous method body: from a state to an outcome (\<open>Inl\<close> a raised error, that is a
  rejected promise; \<open>Inr\<close> the returned value) and the state it leaves behind. Each method
  runs to its end without interleaving.
\<close>

type_synonym ('a, 's) prog = "'s \<Rightarrow> (error + 'a) \<times> 's"

definition succeed :: "'a \<Rightarrow> ('a, 's) prog" where
  "succeed x = (\<lambda>s. (Inr x, s))"

definition throw :: "error \<Rightarrow> ('a, 's) prog" where
  "throw e = (\<lambda>s. (Inl e, s))"

definition seq :: "('a, 's) prog \<Rightarrow> ('a \<Rightarrow> ('b, 's) prog) \<Rightarrow> ('b, 's) prog" where
  "seq m f = (\<lambda>s. case m s of (Inl e, s') \<Rightarrow> (Inl e, s') | (Inr x, s') \<Rightarrow> f x s')"

definition try_catch :: "('a, 's) prog \<Rightarrow> (error \<Rightarrow> ('a, 's) prog) \<Rightarrow> ('a, 's) prog" where
  "try_catch m h = (\<lambda>s. case m s of (Inl e, s') \<Rightarrow> h e s' | (Inr x, s') \<Rightarrow> (Inr x, s'))"

definition await :: "error + 'a \<Rightarrow> ('a, 's) prog" where
  "await r = (case r of Inl e \<Rightarrow> throw e | Inr x \<Rightarrow> succeed x)"

definition modify :: "('s \<Rightarrow> 's) \<Rightarrow> (unit, 's) prog" where
  "modify f = (\<lambda>s. (Inr (), f s))"

definition gets :: "('s \<Rightarrow> 'a) \<Rightarrow> ('a, 's) prog" where
  "gets f = (\<lambda>s. (Inr (f s), s))"

subsection \<open>Events, handlers and options\<close>

text \<open>
  An event object: the class it is an instance of, the fields the bus published it with
  (the request context among them), and the \<^verbatim>\<open>data\<close> property that
  \<^verbatim>\<open>EventWithAsyncData\<close> adds, absent on a plain \<^verbatim>\<open>EventWithContext\<close>.
\<close>

record ('c, 'd) event =
  eventClass :: string
  baseEvent :: 'c
  data :: "'d option"

text \<open>
  The two handler classes. \<^verbatim>\<open>handle\<close> receives the event and the global template
  variables and resolves to the email details or to \<^verbatim>\<open>undefined\<close>, or rejects.
  \<^verbatim>\<open>_loadDataFn\<close> receives the event (with the plugin's connection and injector, which are
  fixed for a plugin instance) and resolves to the data or rejects. Both are user code,
  taken as functions of their arguments.
\<close>

datatype ('c, 'd, 'g, 'p) handler =
    EmailEventHandler
      (type: string) (event: string)
      (handle: "('c, 'd) event \<Rightarrow> 'g \<Rightarrow> error + 'p option")
  | EmailEventHandlerWithAsyncData
      (type: string) (event: string)
      (handle: "('c, 'd) event \<Rightarrow> 'g \<Rightarrow> error + 'p option")
      (loadDataFn: "('c, 'd) event \<Rightarrow> error + 'd")

text \<open>
  The plugin options, as far as the plugin reads them: the handlers, the global template
  variables, and either the transport's type or, in dev mode, the optional mailbox port.
\<close>

datatype ('c, 'd, 'g, 'p) options =
    EmailPluginOptions
      (handlers: "('c, 'd, 'g, 'p) handler list") (globalTemplateVars: 'g)
      (transportType: string)
  | EmailPluginDevModeOptions
      (handlers: "('c, 'd, 'g, 'p) handler list") (globalTemplateVars: 'g)
      (mailboxPort: "nat option")

text \<open>
  Modelled from the spec: \<^verbatim>\<open>isDevModeOptions\<close> of \<^verbatim>\<open>./common\<close>, the type guard that
  tells dev-mode options from the others.
\<close>

fun isDevModeOptions :: "('c, 'd, 'g, 'p) options \<Rightarrow> bool" where
  "isDevModeOptions (EmailPluginDevModeOptions hs g port) = True"
| "isDevModeOptions (EmailPluginOptions hs g t) = False"

subsection \<open>Collaborators\<close>

text \<open>
  Modelled from the spec: a job of the job queue engine, outside this file. It carries its
  data and the state that \<^verbatim>\<open>job.complete()\<close> and \<^verbatim>\<open>job.fail(err)\<close> leave it in.
\<close>

datatype job_state = PENDING | COMPLETED | FAILED error

record 'p job =
  job_data :: 'p
  job_state :: job_state

text \<open>
  Modelled from the spec: worker messaging, outside this file. The message the queue's
  process callback sends is \<^verbatim>\<open>new EmailWorkerMessage(job.data)\<close>; the observable that
  \<^verbatim>\<open>workerService.send\<close> returns completes, errors, or does neither.
\<close>

datatype 'p message = EmailWorkerMessage 'p

datatype outcome = Completes | Errors error | Pending

text \<open>
  Every call the plugin makes on the logger, on user code, on the queue service, on the
  delivery backends and on the dev mailbox is recorded, in order. A handler call carries
  the handler's type, the address of the event object and the object's value when the
  call is made. (Subscriptions are recorded in the state of the event bus, below.)
\<close>

datatype ('c, 'd, 'p) call =
    Logger_debug string string
  | Logger_error "string option" string "string option"
  | LoadDataFn string nat "('c, 'd) event"
  | Handle string nat "('c, 'd) event"
  | JobQueue_add 'p
  | EmailProcessor_process 'p
  | EmailProcessor_init
  | CreateQueue string nat
  | DevMailbox_serve "nat option"
  | DevMailbox_handleMockEvent
  | DevMailbox_destroy

text \<open>
  Modelled from the spec: what the collaborators, all outside this file, and the runtime
  answer: the \<^verbatim>\<open>TypeError\<close> that the runtime raises when a property of
  \<^verbatim>\<open>undefined\<close> or \<^verbatim>\<open>null\<close> is read, whether \<^verbatim>\<open>EmailProcessor.init\<close>,
  \<^verbatim>\<open>EmailProcessor.process\<close> and \<^verbatim>\<open>JobQueue.add\<close> reject, and how the worker's
  observable ends. The synchronous calls (constructors, \<^verbatim>\<open>createQueue\<close>,
  \<^verbatim>\<open>subscribe\<close>, the dev mailbox's methods, the logger) return.
\<close>

record 'p collaborators =
  type_error :: error
  init_rejects :: "error option"
  process_rejects :: "'p \<Rightarrow> error option"
  add_rejects :: "'p \<Rightarrow> error option"
  send_outcome :: "'p message \<Rightarrow> outcome"

text \<open>
  Modelled from the spec: a queue of the job queue engine, as \<^verbatim>\<open>createQueue\<close> is given
  it (name, concurrency, process callback), with the jobs added so far. The process callback yields the messages it sent to the worker and
  the job as it leaves it.
\<close>

record 'p job_queue =
  name :: string
  concurrency :: nat
  process :: "'p job \<Rightarrow> 'p message list \<times> 'p job"
  jobs :: "'p job list"

text \<open>
  Modelled from the spec: the dev mailbox of \<^verbatim>\<open>./dev-mailbox\<close>, as far as the plugin
  drives it: the port it serves on once \<^verbatim>\<open>serve\<close> ran, whether a mock-event callback is
  registered, and whether \<^verbatim>\<open>destroy\<close> ran.
\<close>

record dev_mailbox =
  served :: "nat option"
  mockEventHandler :: bool
  destroyed :: bool

text \<open>
  Modelled from the spec: the payload processor of \<^verbatim>\<open>./email-processor\<close>, as far as the
  plugin drives it: whether its \<^verbatim>\<open>init\<close> has completed.
\<close>

record email_processor =
  initialized :: bool

subsection \<open>The system state\<close>

text \<open>
  The static \<^verbatim>\<open>EmailPlugin.options\<close>, the three private fields of the instance, the
  subscriptions held by the event bus (the event class filtered on and the handler the
  callback is bound to), the store of event objects by address, and the calls made so far.
\<close>

record ('c, 'd, 'g, 'p) system =
  options :: "('c, 'd, 'g, 'p) options"
  devMailbox :: "dev_mailbox option"
  jobQueue :: "'p job_queue option"
  testingProcessor :: "email_processor option"
  subscriptions :: "(string \<times> ('c, 'd, 'g, 'p) handler) list"
  events :: "nat \<Rightarrow> ('c, 'd) event"
  calls :: "('c, 'd, 'p) call list"

definition call :: "('c, 'd, 'p) call \<Rightarrow> (unit, ('c, 'd, 'g, 'p) system) prog" where
  "call c = modify (\<lambda>s. s\<lparr>calls := calls s @ [c]\<rparr>)"

section \<open>The plugin's methods\<close>

subsection \<open>handleEvent\<close>

text \<open>
  Modelled from the spec: \<^verbatim>\<open>JobQueue.add\<close>, called as \<^verbatim>\<open>this.jobQueue.add(result)\<close>.
  The call is recorded; when it resolves, the queue holds a new pending job with the
  payload; when it rejects, the error is raised at the \<^verbatim>\<open>await\<close>.
\<close>

definition jobQueue_add ::
  "'p collaborators \<Rightarrow> 'p job_queue \<Rightarrow> 'p \<Rightarrow> (unit, ('c, 'd, 'g, 'p) system) prog" where
  "jobQueue_add co q result =
     seq (call (JobQueue_add result)) (\<lambda>_.
       case add_rejects co result of
         Some e \<Rightarrow> throw e
       | None \<Rightarrow> modify (\<lambda>s. s\<lparr>jobQueue :=
           Some (q\<lparr>jobs := jobs q @ [\<lparr>job_data = result, job_state = PENDING\<rparr>]\<rparr>)\<rparr>))"

text \<open>
  Modelled from the spec: \<^verbatim>\<open>EmailProcessor.process\<close>, called as
  \<^verbatim>\<open>this.testingProcessor.process(result)\<close>. The call is recorded; when it rejects, the
  error is raised at the \<^verbatim>\<open>await\<close>.
\<close>

definition testingProcessor_process ::
  "'p collaborators \<Rightarrow> 'p \<Rightarrow> (unit, ('c, 'd, 'g, 'p) system) prog" where
  "testingProcessor_process co result =
     seq (call (EmailProcessor_process result)) (\<lambda>_.
       case process_rejects co result of
         Some e \<Rightarrow> throw e
       | None \<Rightarrow> succeed ())"

text \<open>
  The statement \<^verbatim>\<open>event.data = await handler._loadDataFn({event, connection, inject})\<close>:
  the loader is called on the event object as it is; only when it resolves is the
  \<^verbatim>\<open>data\<close> property of that same object assigned.
\<close>

definition loadData ::
  "('c, 'd, 'g, 'p) handler \<Rightarrow> nat \<Rightarrow> (unit, ('c, 'd, 'g, 'p) system) prog" where
  "loadData handler ev =
     seq (gets (\<lambda>s. events s ev)) (\<lambda>event.
     seq (call (LoadDataFn (type handler) ev event)) (\<lambda>_.
     seq (await (loadDataFn handler event)) (\<lambda>d.
       modify (\<lambda>s. s\<lparr>events := (events s)(ev := (events s ev)\<lparr>data := Some d\<rparr>)\<rparr>))))"

text \<open>
  \<^verbatim>\<open>await handler.handle(event, EmailPlugin.options.globalTemplateVars)\<close>.
\<close>

definition callHandle ::
  "('c, 'd, 'g, 'p) handler \<Rightarrow> nat \<Rightarrow> ('p option, ('c, 'd, 'g, 'p) system) prog" where
  "callHandle handler ev =
     seq (gets (\<lambda>s. events s ev)) (\<lambda>event.
     seq (call (Handle (type handler) ev event)) (\<lambda>_.
     seq (gets (\<lambda>s. globalTemplateVars (options s))) (\<lambda>vars.
       await (handle handler event vars))))"

text \<open>
  The first statement of the \<^verbatim>\<open>try\<close> block:
  \<^verbatim>\<open>if (handler instanceof EmailEventHandlerWithAsyncData) { event.data = await ... }\<close>.
\<close>

definition enrich ::
  "('c, 'd, 'g, 'p) handler \<Rightarrow> nat \<Rightarrow> (unit, ('c, 'd, 'g, 'p) system) prog" where
  "enrich handler ev =
     (case handler of
        EmailEventHandlerWithAsyncData t c h l \<Rightarrow> loadData handler ev
      | EmailEventHandler t c h \<Rightarrow> succeed ())"

text \<open>
  The last statement of the \<^verbatim>\<open>try\<close> block:
  \<^verbatim>\<open>if (this.jobQueue) { await this.jobQueue.add(result) }
    else if (this.testingProcessor) { await this.testingProcessor.process(result) }\<close>.
\<close>

definition deliver_result ::
  "'p collaborators \<Rightarrow> 'p \<Rightarrow> (unit, ('c, 'd, 'g, 'p) system) prog" where
  "deliver_result co result =
     seq (gets jobQueue) (\<lambda>jq.
       case jq of
         Some q \<Rightarrow> jobQueue_add co q result
       | None \<Rightarrow>
           seq (gets testingProcessor) (\<lambda>tp.
             case tp of
               Some p \<Rightarrow> testingProcessor_process co result
             | None \<Rightarrow> succeed ()))"

text \<open>
  The body of the \<^verbatim>\<open>try\<close> block of \<^verbatim>\<open>handleEvent\<close>; \<^verbatim>\<open>if (!result) { return; }\<close>
  is the \<open>None\<close> branch.
\<close>

definition handleEvent_try ::
  "'p collaborators \<Rightarrow> ('c, 'd, 'g, 'p) handler \<Rightarrow> nat \<Rightarrow> (unit, ('c, 'd, 'g, 'p) system) prog" where
  "handleEvent_try co handler ev =
     seq (enrich handler ev) (\<lambda>_.
     seq (callHandle handler ev) (\<lambda>result.
       case result of
         None \<Rightarrow> succeed ()
       | Some r \<Rightarrow> deliver_result co r))"

text \<open>
  The debug line at the start of \<^verbatim>\<open>handleEvent\<close>.
\<close>

definition log_handling :: "('c, 'd, 'g, 'p) handler \<Rightarrow> ('c, 'd, 'p) call" where
  \<open>log_handling handler =
     Logger_debug (''Handling event "'' @ type handler @ ''"'') ''EmailPlugin''\<close>

text \<open>
  Reading a property of a caught value, \<^verbatim>\<open>e.message\<close> or \<^verbatim>\<open>e.stack\<close>: of
  \<^verbatim>\<open>undefined\<close> and \<^verbatim>\<open>null\<close> the read raises the runtime's \<^verbatim>\<open>TypeError\<close>.
\<close>

definition read_property ::
  "'p collaborators \<Rightarrow> (error \<Rightarrow> string option) \<Rightarrow> error \<Rightarrow>
     (string option, ('c, 'd, 'g, 'p) system) prog" where
  "read_property co property e =
     (if nullish e then throw (type_error co) else succeed (property e))"

text \<open>
  The \<^verbatim>\<open>catch\<close> block, \<^verbatim>\<open>Logger.error(e.message, 'EmailPlugin', e.stack)\<close>: the two
  arguments are read first, in order, then the logger is called. Nothing catches what the
  block itself raises.
\<close>

definition handleEvent_catch ::
  "'p collaborators \<Rightarrow> error \<Rightarrow> (unit, ('c, 'd, 'g, 'p) system) prog" where
  "handleEvent_catch co e =
     seq (read_property co message e) (\<lambda>m.
     seq (read_property co stack e) (\<lambda>st.
       call (Logger_error m ''EmailPlugin'' st)))"

definition handleEvent ::
  "'p collaborators \<Rightarrow> ('c, 'd, 'g, 'p) handler \<Rightarrow> nat \<Rightarrow> (unit, ('c, 'd, 'g, 'p) system) prog" where
  "handleEvent co handler ev =
     seq (call (log_handling handler)) (\<lambda>_.
     try_catch (handleEvent_try co handler ev) (handleEvent_catch co))"

subsection \<open>Subscriptions\<close>

text \<open>
  Modelled from the spec: the event bus's \<^verbatim>\<open>ofType(...).subscribe(...)\<close>, called as
  \<^verbatim>\<open>eventBus.ofType(handler.event).subscribe((event) => this.handleEvent(handler, event))\<close>.
  The bus gains a subscription filtered on the handler's event class whose callback is
  bound to that handler.
\<close>

definition subscribe ::
  "('c, 'd, 'g, 'p) handler \<Rightarrow> (unit, ('c, 'd, 'g, 'p) system) prog" where
  "subscribe handler =
     modify (\<lambda>s. s\<lparr>subscriptions := subscriptions s @ [(event handler, handler)]\<rparr>)"

text \<open>The loop \<^verbatim>\<open>for (const handler of EmailPlugin.options.handlers)\<close>.\<close>

fun subscribe_each ::
  "('c, 'd, 'g, 'p) handler list \<Rightarrow> (unit, ('c, 'd, 'g, 'p) system) prog" where
  "subscribe_each [] = succeed ()"
| "subscribe_each (handler # rest) = seq (subscribe handler) (\<lambda>_. subscribe_each rest)"

definition setupEventSubscribers :: "(unit, ('c, 'd, 'g, 'p) system) prog" where
  "setupEventSubscribers = seq (gets (\<lambda>s. handlers (options s))) subscribe_each"

text \<open>The callback of a subscription, bound to its handler.\<close>

definition subscription_callback ::
  "'p collaborators \<Rightarrow> ('c, 'd, 'g, 'p) handler \<Rightarrow> nat \<Rightarrow> (unit, ('c, 'd, 'g, 'p) system) prog" where
  "subscription_callback co handler = (\<lambda>event. handleEvent co handler event)"



subsection \<open>Bootstrap and close\<close>

text \<open>The static \<^verbatim>\<open>EmailPlugin.init(options)\<close>.\<close>

definition init ::
  "('c, 'd, 'g, 'p) options \<Rightarrow> ('c, 'd, 'g, 'p) system \<Rightarrow> ('c, 'd, 'g, 'p) system" where
  "init opts s = s\<lparr>options := opts\<rparr>"

text \<open>
  A plugin instance as its constructor leaves it: none of the three private fields is
  assigned.
\<close>

definition constructed :: "('c, 'd, 'g, 'p) system \<Rightarrow> bool" where
  "constructed s \<longleftrightarrow> devMailbox s = None \<and> jobQueue s = None \<and> testingProcessor s = None"

text \<open>
  Modelled from the spec: the dev mailbox's constructor, \<^verbatim>\<open>serve\<close> and
  \<^verbatim>\<open>handleMockEvent\<close>, called in the three statements
  \<^verbatim>\<open>this.devMailbox = new DevMailbox()\<close>, \<^verbatim>\<open>this.devMailbox.serve(options)\<close> and
  \<^verbatim>\<open>this.devMailbox.handleMockEvent((handler, event) => this.handleEvent(handler, event))\<close>.
  Each call is recorded and leaves its mark on the mailbox.
\<close>

definition new_DevMailbox :: dev_mailbox where
  "new_DevMailbox = \<lparr>served = None, mockEventHandler = False, destroyed = False\<rparr>"

definition devMailbox_serve ::
  "('c, 'd, 'g, 'p) options \<Rightarrow> (unit, ('c, 'd, 'g, 'p) system) prog" where
  "devMailbox_serve opts =
     seq (call (DevMailbox_serve (mailboxPort opts))) (\<lambda>_.
       modify (\<lambda>s. s\<lparr>devMailbox :=
         map_option (\<lambda>m. m\<lparr>served := mailboxPort opts\<rparr>) (devMailbox s)\<rparr>))"

definition devMailbox_handleMockEvent :: "(unit, ('c, 'd, 'g, 'p) system) prog" where
  "devMailbox_handleMockEvent =
     seq (call DevMailbox_handleMockEvent) (\<lambda>_.
       modify (\<lambda>s. s\<lparr>devMailbox :=
         map_option (\<lambda>m. m\<lparr>mockEventHandler := True\<rparr>) (devMailbox s)\<rparr>))"

text \<open>The callback given to \<^verbatim>\<open>handleMockEvent\<close>.\<close>

definition mockEvent_callback ::
  "'p collaborators \<Rightarrow> ('c, 'd, 'g, 'p) handler \<Rightarrow> nat \<Rightarrow> (unit, ('c, 'd, 'g, 'p) system) prog" where
  "mockEvent_callback co = (\<lambda>handler event. handleEvent co handler event)"

text \<open>
  Modelled from the spec: the dev mailbox triggering a synthetic event. It runs the
  registered callback, when there is one.
\<close>

definition triggerMockEvent ::
  "'p collaborators \<Rightarrow> ('c, 'd, 'g, 'p) handler \<Rightarrow> nat \<Rightarrow> (unit, ('c, 'd, 'g, 'p) system) prog" where
  "triggerMockEvent co handler ev =
     seq (gets devMailbox) (\<lambda>dm.
       case dm of
         Some m \<Rightarrow> if mockEventHandler m then mockEvent_callback co handler ev else succeed ()
       | None \<Rightarrow> succeed ())"

text \<open>
  Modelled from the spec: \<^verbatim>\<open>EmailProcessor.init\<close>, awaited right after
  \<^verbatim>\<open>this.testingProcessor = new EmailProcessor(options)\<close>. The call is recorded; when it
  rejects, the error is raised at the \<^verbatim>\<open>await\<close>, with the field already assigned.
\<close>

definition testingProcessor_init ::
  "'p collaborators \<Rightarrow> (unit, ('c, 'd, 'g, 'p) system) prog" where
  "testingProcessor_init co =
     seq (call EmailProcessor_init) (\<lambda>_.
       case init_rejects co of
         Some e \<Rightarrow> throw e
       | None \<Rightarrow> modify (\<lambda>s. s\<lparr>testingProcessor :=
           map_option (\<lambda>p. p\<lparr>initialized := True\<rparr>) (testingProcessor s)\<rparr>))"

text \<open>
  The process callback of the queue: it sends the job's data to the worker and subscribes
  with \<^verbatim>\<open>complete: () => job.complete()\<close> and \<^verbatim>\<open>error: (err) => job.fail(err)\<close>.
\<close>

definition send_email_process ::
  "'p collaborators \<Rightarrow> 'p job \<Rightarrow> 'p message list \<times> 'p job" where
  "send_email_process co job =
     ([EmailWorkerMessage (job_data job)],
      case send_outcome co (EmailWorkerMessage (job_data job)) of
        Completes \<Rightarrow> job\<lparr>job_state := COMPLETED\<rparr>
      | Errors err \<Rightarrow> job\<lparr>job_state := FAILED err\<rparr>
      | Pending \<Rightarrow> job)"

text \<open>
  Modelled from the spec: \<^verbatim>\<open>JobQueueService.createQueue\<close>, called in
  \<^verbatim>\<open>this.jobQueue = this.jobQueueService.createQueue({name, concurrency, process})\<close>.
  The call is recorded and returns an empty queue with what it was given.
\<close>

definition createQueue ::
  "string \<Rightarrow> nat \<Rightarrow> ('p job \<Rightarrow> 'p message list \<times> 'p job) \<Rightarrow>
     ('p job_queue, ('c, 'd, 'g, 'p) system) prog" where
  "createQueue n c p =
     seq (call (CreateQueue n c)) (\<lambda>_.
       succeed \<lparr>name = n, concurrency = c, process = p, jobs = []\<rparr>)"

text \<open>
  \<^verbatim>\<open>onVendureBootstrap\<close>: the options are read once; the dev mailbox is set up when the
  options are dev-mode options with a mailbox port; the subscriptions are set up; then
  either the testing processor or the queue is created. \<open>mailboxPort\<close> and
  \<open>transportType\<close> are read only behind \<open>isDevModeOptions\<close>, as the source's
  \<^verbatim>\<open>&&\<close> does.
\<close>

definition onVendureBootstrap ::
  "'p collaborators \<Rightarrow> (unit, ('c, 'd, 'g, 'p) system) prog" where
  "onVendureBootstrap co =
     seq (gets options) (\<lambda>opts.
     seq (if isDevModeOptions opts \<and> mailboxPort opts \<noteq> None
          then seq (modify (\<lambda>s. s\<lparr>devMailbox := Some new_DevMailbox\<rparr>)) (\<lambda>_.
               seq (devMailbox_serve opts) (\<lambda>_.
                 devMailbox_handleMockEvent))
          else succeed ()) (\<lambda>_.
     seq setupEventSubscribers (\<lambda>_.
       if \<not> isDevModeOptions opts \<and> transportType opts = ''testing''
       then seq (modify (\<lambda>s. s\<lparr>testingProcessor := Some \<lparr>initialized = False\<rparr>\<rparr>)) (\<lambda>_.
              testingProcessor_init co)
       else seq (createQueue ''send-email'' 5 (send_email_process co)) (\<lambda>q.
              modify (\<lambda>s. s\<lparr>jobQueue := Some q\<rparr>)))))"

text \<open>
  \<^verbatim>\<open>onVendureClose\<close>. Modelled from the spec: the dev mailbox's \<^verbatim>\<open>destroy\<close>; the call is
  recorded and marks the mailbox.
\<close>

definition onVendureClose :: "(unit, ('c, 'd, 'g, 'p) system) prog" where
  "onVendureClose =
     seq (gets devMailbox) (\<lambda>dm.
       case dm of
         Some m \<Rightarrow>
           seq (call DevMailbox_destroy) (\<lambda>_.
             modify (\<lambda>s. s\<lparr>devMailbox := Some (m\<lparr>destroyed := True\<rparr>)\<rparr>))
       | None \<Rightarrow> succeed ())"

section \<open>Observing a run\<close>

text \<open>The calls a program makes when run from a state: what it appends to the record.\<close>

definition calls_made ::
  "('a, ('c, 'd, 'g, 'p) system) prog \<Rightarrow> ('c, 'd, 'g, 'p) system \<Rightarrow> ('c, 'd, 'p) call list" where
  "calls_made m s = drop (length (calls s)) (calls (snd (m s)))"

fun is_Handle :: "('c, 'd, 'p) call \<Rightarrow> bool" where
  "is_Handle (Handle t a e) = True"
| "is_Handle _ = False"

fun is_LoadDataFn :: "('c, 'd, 'p) call \<Rightarrow> bool" where
  "is_LoadDataFn (LoadDataFn t a e) = True"
| "is_LoadDataFn _ = False"

fun is_delivery :: "('c, 'd, 'p) call \<Rightarrow> bool" where
  "is_delivery (JobQueue_add r) = True"
| "is_delivery (EmailProcessor_process r) = True"
| "is_delivery _ = False"

fun is_Logger_error :: "('c, 'd, 'p) call \<Rightarrow> bool" where
  "is_Logger_error (Logger_error m c st) = True"
| "is_Logger_error _ = False"

fun is_CreateQueue :: "('c, 'd, 'p) call \<Rightarrow> bool" where
  "is_CreateQueue (CreateQueue n c) = True"
| "is_CreateQueue _ = False"

fun is_DevMailbox :: "('c, 'd, 'p) call \<Rightarrow> bool" where
  "is_DevMailbox (DevMailbox_serve port) = True"
| "is_DevMailbox DevMailbox_handleMockEvent = True"
| "is_DevMailbox DevMailbox_destroy = True"
| "is_DevMailbox _ = False"

section \<open>Sample configurations\<close>

text \<open>
  Concrete handlers, collaborators and systems on which the theorems below are
  instantiated. Event contents, loaded data, template variables and email details are
  strings here.
\<close>

definition order_event :: "(string, string) event" where
  "order_event =
     \<lparr>eventClass = ''OrderStateTransitionEvent'', baseEvent = ''order 1'', data = None\<rparr>"

definition confirmation_handler :: "(string, string, string, string) handler" where
  "confirmation_handler =
     EmailEventHandler ''order-confirmation'' ''OrderStateTransitionEvent''
       (\<lambda>e g. Inr (Some ''confirm to a@b.com''))"

definition shipping_handler :: "(string, string, string, string) handler" where
  "shipping_handler =
     EmailEventHandlerWithAsyncData ''order-shipped'' ''OrderStateTransitionEvent''
       (\<lambda>e g. Inr (map_option (\<lambda>d. ''shipped: '' @ d) (data e)))
       (\<lambda>e. Inr ''parcel 7'')"

definition broken_handler :: "(string, string, string, string) handler" where
  "broken_handler =
     EmailEventHandlerWithAsyncData ''order-shipped'' ''OrderStateTransitionEvent''
       (\<lambda>e g. Inr (Some ''shipped''))
       (\<lambda>e. Inl (Error ''DependencyNotFound'' ''at inject''))"

text \<open>
  A handler whose loader gives up without a reason, as
  \<^verbatim>\<open>new Promise((resolve, reject) => setTimeout(reject, ms))\<close> does, one whose body
  throws a string, and collaborators that reject without a reason.
\<close>

definition timeout_handler :: "(string, string, string, string) handler" where
  "timeout_handler =
     EmailEventHandlerWithAsyncData ''order-shipped'' ''OrderStateTransitionEvent''
       (\<lambda>e g. Inr (Some ''shipped''))
       (\<lambda>e. Inl Undefined)"

definition string_throwing_handler :: "(string, string, string, string) handler" where
  "string_throwing_handler =
     EmailEventHandler ''order-refund'' ''OrderStateTransitionEvent''
       (\<lambda>e g. Inl (Value None None))"

definition silent_rejecting :: "string collaborators" where
  "silent_rejecting =
     \<lparr>type_error = Error ''Cannot read property message of undefined'' ''at handleEvent'',
      init_rejects = None,
      process_rejects = (\<lambda>p. Some Undefined),
      add_rejects = (\<lambda>p. Some Null),
      send_outcome = (\<lambda>m. Completes)\<rparr>"

definition crashing_handler :: "(string, string, string, string) handler" where
  "crashing_handler =
     EmailEventHandler ''order-refund'' ''OrderStateTransitionEvent''
       (\<lambda>e g. Inl (Error ''template missing'' ''at handle''))"

definition silent_handler :: "(string, string, string, string) handler" where
  "silent_handler =
     EmailEventHandler ''newsletter'' ''OrderStateTransitionEvent'' (\<lambda>e g. Inr None)"

definition reliable :: "string collaborators" where
  "reliable =
     \<lparr>type_error = Error ''Cannot read property message of undefined'' ''at handleEvent'',
      init_rejects = None, process_rejects = (\<lambda>p. None), add_rejects = (\<lambda>p. None),
      send_outcome = (\<lambda>m. Completes)\<rparr>"

definition unreliable :: "string collaborators" where
  "unreliable =
     \<lparr>type_error = Error ''Cannot read property message of undefined'' ''at handleEvent'',
      init_rejects = None,
      process_rejects = (\<lambda>p. Some (Error ''SMTP down'' ''at process'')),
      add_rejects = (\<lambda>p. Some (Error ''queue down'' ''at add'')),
      send_outcome = (\<lambda>m. Errors (Error ''worker down'' ''at send''))\<rparr>"

definition testing_options :: "(string, string, string, string) options" where
  "testing_options =
     EmailPluginOptions [confirmation_handler, shipping_handler] ''vars'' ''testing''"

definition smtp_options :: "(string, string, string, string) options" where
  "smtp_options =
     EmailPluginOptions [confirmation_handler, shipping_handler] ''vars'' ''smtp''"

definition dev_options :: "(string, string, string, string) options" where
  "dev_options = EmailPluginDevModeOptions [confirmation_handler] ''vars'' (Some 5003)"


definition timeout_options :: "(string, string, string, string) options" where
  "timeout_options =
     EmailPluginOptions [timeout_handler, confirmation_handler] ''vars'' ''testing''"

text \<open>A system whose plugin instance has just been constructed, with one event object.\<close>

definition new_system ::
  "(string, string, string, string) options \<Rightarrow> (string, string, string, string) system" where
  "new_system opts =
     \<lparr>options = opts, devMailbox = None, jobQueue = None, testingProcessor = None,
      subscriptions = [], events = (\<lambda>a. order_event), calls = []\<rparr>"

definition inline_system :: "(string, string, string, string) system" where
  "inline_system = snd (onVendureBootstrap reliable (new_system testing_options))"

definition queued_system :: "(string, string, string, string) system" where
  "queued_system = snd (onVendureBootstrap reliable (new_system smtp_options))"

definition dev_system :: "(string, string, string, string) system" where
  "dev_system = snd (onVendureBootstrap reliable (new_system dev_options))"


definition timeout_system :: "(string, string, string, string) system" where
  "timeout_system = snd (onVendureBootstrap reliable (new_system timeout_options))"

section \<open>Running the programs\<close>

text \<open>What each statement of \<^verbatim>\<open>handleEvent\<close> does to a state, as equations.\<close>

lemmas prog_defs = succeed_def throw_def seq_def try_catch_def await_def modify_def gets_def call_def

lemma enrich_run:
  "enrich h ev s =
     (case h of
        EmailEventHandler t c f \<Rightarrow> (Inr (), s)
      | EmailEventHandlerWithAsyncData t c f l \<Rightarrow>
          (case l (events s ev) of
             Inl e \<Rightarrow> (Inl e, s\<lparr>calls := calls s @ [LoadDataFn t ev (events s ev)]\<rparr>)
           | Inr d \<Rightarrow> (Inr (), s\<lparr>events := (events s)(ev := (events s ev)\<lparr>data := Some d\<rparr>),
                                 calls := calls s @ [LoadDataFn t ev (events s ev)]\<rparr>)))"
  by (simp add: enrich_def loadData_def prog_defs split: handler.splits sum.splits)

lemma callHandle_run:
  "callHandle h ev s =
     (handle h (events s ev) (globalTemplateVars (options s)),
      s\<lparr>calls := calls s @ [Handle (type h) ev (events s ev)]\<rparr>)"
  by (simp add: callHandle_def prog_defs split: sum.splits)

lemma deliver_result_run:
  "deliver_result co r s =
     (case jobQueue s of
        Some q \<Rightarrow>
          (case add_rejects co r of
             Some e \<Rightarrow> (Inl e, s\<lparr>calls := calls s @ [JobQueue_add r]\<rparr>)
           | None \<Rightarrow> (Inr (), s\<lparr>jobQueue := Some (q\<lparr>jobs := jobs q @ [\<lparr>job_data = r, job_state = PENDING\<rparr>]\<rparr>),
                                 calls := calls s @ [JobQueue_add r]\<rparr>))
      | None \<Rightarrow>
          (case testingProcessor s of
             Some p \<Rightarrow>
               (case process_rejects co r of
                  Some e \<Rightarrow> (Inl e, s\<lparr>calls := calls s @ [EmailProcessor_process r]\<rparr>)
                | None \<Rightarrow> (Inr (), s\<lparr>calls := calls s @ [EmailProcessor_process r]\<rparr>))
           | None \<Rightarrow> (Inr (), s)))"
  by (simp add: deliver_result_def jobQueue_add_def testingProcessor_process_def prog_defs
      split: option.splits)

lemma handleEvent_catch_run:
  "handleEvent_catch co e s =
     (if nullish e then (Inl (type_error co), s)
      else (Inr (), s\<lparr>calls := calls s @ [Logger_error (message e) ''EmailPlugin'' (stack e)]\<rparr>))"
  by (simp add: handleEvent_catch_def read_property_def prog_defs)

lemma handleEvent_run:
  "handleEvent co h ev s =
     (case handleEvent_try co h ev (s\<lparr>calls := calls s @ [log_handling h]\<rparr>) of
        (Inl e, s') \<Rightarrow> handleEvent_catch co e s'
      | (Inr u, s') \<Rightarrow> (Inr (), s'))"
  by (simp add: handleEvent_def prog_defs split: prod.splits sum.splits)

lemmas run = handleEvent_run handleEvent_try_def seq_def succeed_def enrich_run callHandle_run
  deliver_result_run handleEvent_catch_run

text \<open>
  The fifteen paths through \<^verbatim>\<open>handleEvent\<close>: a plain handler (\<open>S\<close>) or one with
  async data (\<open>A\<close>), the loader and the handler body failing or not, and the five ways the
  delivery can go. Each path gives the outcome and the state \<^verbatim>\<open>handleEvent\<close> ends in;
  on the seven paths with a failure both depend on whether the raised value is
  \<^verbatim>\<open>undefined\<close> or \<^verbatim>\<open>null\<close>.
\<close>

lemma handleEvent_paths:
  obtains
    (S_fail) t c f e where
      "h = EmailEventHandler t c f"
      "f (events s ev) (globalTemplateVars (options s)) = Inl e"
      "handleEvent co h ev s =
         (if nullish e
          then (Inl (type_error co),
                s\<lparr>calls := calls s @
                   [log_handling h,
                    Handle t ev (events s ev)]\<rparr>)
          else (Inr (),
                s\<lparr>calls := calls s @
                   [log_handling h,
                    Handle t ev (events s ev),
                    Logger_error (message e) ''EmailPlugin'' (stack e)]\<rparr>))"
  | (S_none) t c f where
      "h = EmailEventHandler t c f"
      "f (events s ev) (globalTemplateVars (options s)) = Inr None"
      "handleEvent co h ev s =
         (Inr (),
          s\<lparr>calls := calls s @
             [log_handling h,
              Handle t ev (events s ev)]\<rparr>)"
  | (S_add_fail) t c f r q e where
      "h = EmailEventHandler t c f"
      "f (events s ev) (globalTemplateVars (options s)) = Inr (Some r)"
      "jobQueue s = Some q"
      "add_rejects co r = Some e"
      "handleEvent co h ev s =
         (if nullish e
          then (Inl (type_error co),
                s\<lparr>calls := calls s @
                   [log_handling h,
                    Handle t ev (events s ev),
                    JobQueue_add r]\<rparr>)
          else (Inr (),
                s\<lparr>calls := calls s @
                   [log_handling h,
                    Handle t ev (events s ev),
                    JobQueue_add r,
                    Logger_error (message e) ''EmailPlugin'' (stack e)]\<rparr>))"
  | (S_add_ok) t c f r q where
      "h = EmailEventHandler t c f"
      "f (events s ev) (globalTemplateVars (options s)) = Inr (Some r)"
      "jobQueue s = Some q"
      "add_rejects co r = None"
      "handleEvent co h ev s =
         (Inr (),
          s\<lparr>jobQueue := Some (q\<lparr>jobs := jobs q @ [\<lparr>job_data = r, job_state = PENDING\<rparr>]\<rparr>),
            calls := calls s @
             [log_handling h,
              Handle t ev (events s ev),
              JobQueue_add r]\<rparr>)"
  | (S_proc_fail) t c f r p e where
      "h = EmailEventHandler t c f"
      "f (events s ev) (globalTemplateVars (options s)) = Inr (Some r)"
      "jobQueue s = None"
      "testingProcessor s = Some p"
      "process_rejects co r = Some e"
      "handleEvent co h ev s =
         (if nullish e
          then (Inl (type_error co),
                s\<lparr>calls := calls s @
                   [log_handling h,
                    Handle t ev (events s ev),
                    EmailProcessor_process r]\<rparr>)
          else (Inr (),
                s\<lparr>calls := calls s @
                   [log_handling h,
                    Handle t ev (events s ev),
                    EmailProcessor_process r,
                    Logger_error (message e) ''EmailPlugin'' (stack e)]\<rparr>))"
  | (S_proc_ok) t c f r p where
      "h = EmailEventHandler t c f"
      "f (events s ev) (globalTemplateVars (options s)) = Inr (Some r)"
      "jobQueue s = None"
      "testingProcessor s = Some p"
      "process_rejects co r = None"
      "handleEvent co h ev s =
         (Inr (),
          s\<lparr>calls := calls s @
             [log_handling h,
              Handle t ev (events s ev),
              EmailProcessor_process r]\<rparr>)"
  | (S_drop) t c f r where
      "h = EmailEventHandler t c f"
      "f (events s ev) (globalTemplateVars (options s)) = Inr (Some r)"
      "jobQueue s = None"
      "testingProcessor s = None"
      "handleEvent co h ev s =
         (Inr (),
          s\<lparr>calls := calls s @
             [log_handling h,
              Handle t ev (events s ev)]\<rparr>)"
  | (A_load_fail) t c f l e where
      "h = EmailEventHandlerWithAsyncData t c f l"
      "l (events s ev) = Inl e"
      "handleEvent co h ev s =
         (if nullish e
          then (Inl (type_error co),
                s\<lparr>calls := calls s @
                   [log_handling h,
                    LoadDataFn t ev (events s ev)]\<rparr>)
          else (Inr (),
                s\<lparr>calls := calls s @
                   [log_handling h,
                    LoadDataFn t ev (events s ev),
                    Logger_error (message e) ''EmailPlugin'' (stack e)]\<rparr>))"
  | (A_fail) t c f l d e where
      "h = EmailEventHandlerWithAsyncData t c f l"
      "l (events s ev) = Inr d"
      "f ((events s ev)\<lparr>data := Some d\<rparr>) (globalTemplateVars (options s)) = Inl e"
      "handleEvent co h ev s =
         (if nullish e
          then (Inl (type_error co),
                s\<lparr>events := (events s)(ev := (events s ev)\<lparr>data := Some d\<rparr>),
                  calls := calls s @
                   [log_handling h,
                    LoadDataFn t ev (events s ev),
                    Handle t ev ((events s ev)\<lparr>data := Some d\<rparr>)]\<rparr>)
          else (Inr (),
                s\<lparr>events := (events s)(ev := (events s ev)\<lparr>data := Some d\<rparr>),
                  calls := calls s @
                   [log_handling h,
                    LoadDataFn t ev (events s ev),
                    Handle t ev ((events s ev)\<lparr>data := Some d\<rparr>),
                    Logger_error (message e) ''EmailPlugin'' (stack e)]\<rparr>))"
  | (A_none) t c f l d where
      "h = EmailEventHandlerWithAsyncData t c f l"
      "l (events s ev) = Inr d"
      "f ((events s ev)\<lparr>data := Some d\<rparr>) (globalTemplateVars (options s)) = Inr None"
      "handleEvent co h ev s =
         (Inr (),
          s\<lparr>events := (events s)(ev := (events s ev)\<lparr>data := Some d\<rparr>),
            calls := calls s @
             [log_handling h,
              LoadDataFn t ev (events s ev),
              Handle t ev ((events s ev)\<lparr>data := Some d\<rparr>)]\<rparr>)"
  | (A_add_fail) t c f l d r q e where
      "h = EmailEventHandlerWithAsyncData t c f l"
      "l (events s ev) = Inr d"
      "f ((events s ev)\<lparr>data := Some d\<rparr>) (globalTemplateVars (options s)) = Inr (Some r)"
      "jobQueue s = Some q"
      "add_rejects co r = Some e"
      "handleEvent co h ev s =
         (if nullish e
          then (Inl (type_error co),
                s\<lparr>events := (events s)(ev := (events s ev)\<lparr>data := Some d\<rparr>),
                  calls := calls s @
                   [log_handling h,
                    LoadDataFn t ev (events s ev),
                    Handle t ev ((events s ev)\<lparr>data := Some d\<rparr>),
                    JobQueue_add r]\<rparr>)
          else (Inr (),
                s\<lparr>events := (events s)(ev := (events s ev)\<lparr>data := Some d\<rparr>),
                  calls := calls s @
                   [log_handling h,
                    LoadDataFn t ev (events s ev),
                    Handle t ev ((events s ev)\<lparr>data := Some d\<rparr>),
                    JobQueue_add r,
                    Logger_error (message e) ''EmailPlugin'' (stack e)]\<rparr>))"
  | (A_add_ok) t c f l d r q where
      "h = EmailEventHandlerWithAsyncData t c f l"
      "l (events s ev) = Inr d"
      "f ((events s ev)\<lparr>data := Some d\<rparr>) (globalTemplateVars (options s)) = Inr (Some r)"
      "jobQueue s = Some q"
      "add_rejects co r = None"
      "handleEvent co h ev s =
         (Inr (),
          s\<lparr>jobQueue := Some (q\<lparr>jobs := jobs q @ [\<lparr>job_data = r, job_state = PENDING\<rparr>]\<rparr>),
            events := (events s)(ev := (events s ev)\<lparr>data := Some d\<rparr>),
            calls := calls s @
             [log_handling h,
              LoadDataFn t ev (events s ev),
              Handle t ev ((events s ev)\<lparr>data := Some d\<rparr>),
              JobQueue_add r]\<rparr>)"
  | (A_proc_fail) t c f l d r p e where
      "h = EmailEventHandlerWithAsyncData t c f l"
      "l (events s ev) = Inr d"
      "f ((events s ev)\<lparr>data := Some d\<rparr>) (globalTemplateVars (options s)) = Inr (Some r)"
      "jobQueue s = None"
      "testingProcessor s = Some p"
      "process_rejects co r = Some e"
      "handleEvent co h ev s =
         (if nullish e
          then (Inl (type_error co),
                s\<lparr>events := (events s)(ev := (events s ev)\<lparr>data := Some d\<rparr>),
                  calls := calls s @
                   [log_handling h,
                    LoadDataFn t ev (events s ev),
                    Handle t ev ((events s ev)\<lparr>data := Some d\<rparr>),
                    EmailProcessor_process r]\<rparr>)
          else (Inr (),
                s\<lparr>events := (events s)(ev := (events s ev)\<lparr>data := Some d\<rparr>),
                  calls := calls s @
                   [log_handling h,
                    LoadDataFn t ev (events s ev),
                    Handle t ev ((events s ev)\<lparr>data := Some d\<rparr>),
                    EmailProcessor_process r,
                    Logger_error (message e) ''EmailPlugin'' (stack e)]\<rparr>))"
  | (A_proc_ok) t c f l d r p where
      "h = EmailEventHandlerWithAsyncData t c f l"
      "l (events s ev) = Inr d"
      "f ((events s ev)\<lparr>data := Some d\<rparr>) (globalTemplateVars (options s)) = Inr (Some r)"
      "jobQueue s = None"
      "testingProcessor s = Some p"
      "process_rejects co r = None"
      "handleEvent co h ev s =
         (Inr (),
          s\<lparr>events := (events s)(ev := (events s ev)\<lparr>data := Some d\<rparr>),
            calls := calls s @
             [log_handling h,
              LoadDataFn t ev (events s ev),
              Handle t ev ((events s ev)\<lparr>data := Some d\<rparr>),
              EmailProcessor_process r]\<rparr>)"
  | (A_drop) t c f l d r where
      "h = EmailEventHandlerWithAsyncData t c f l"
      "l (events s ev) = Inr d"
      "f ((events s ev)\<lparr>data := Some d\<rparr>) (globalTemplateVars (options s)) = Inr (Some r)"
      "jobQueue s = None"
      "testingProcessor s = None"
      "handleEvent co h ev s =
         (Inr (),
          s\<lparr>events := (events s)(ev := (events s ev)\<lparr>data := Some d\<rparr>),
            calls := calls s @
             [log_handling h,
              LoadDataFn t ev (events s ev),
              Handle t ev ((events s ev)\<lparr>data := Some d\<rparr>)]\<rparr>)"
proof (cases h)
  case simple: (EmailEventHandler t c f)
  show ?thesis
  proof (cases "f (events s ev) (globalTemplateVars (options s))")
    case (Inl e)
    with simple show ?thesis
      by (intro S_fail[of t c f e]) (simp_all add: run)
  next
    case res: (Inr res)
    show ?thesis
    proof (cases res)
      case None
      with simple res show ?thesis
        by (intro S_none[of t c f]) (simp_all add: run)
    next
      case r: (Some r)
      show ?thesis
      proof (cases "jobQueue s")
        case q: (Some q)
        show ?thesis
        proof (cases "add_rejects co r")
          case None
          with simple res r q show ?thesis
            by (intro S_add_ok[of t c f r q]) (simp_all add: run)
        next
          case (Some e)
          with simple res r q show ?thesis
            by (intro S_add_fail[of t c f r q e]) (simp_all add: run)
        qed
      next
        case noq: None
        show ?thesis
        proof (cases "testingProcessor s")
          case nop: None
          with simple res r noq show ?thesis
            by (intro S_drop[of t c f r]) (simp_all add: run)
        next
          case p: (Some p)
          show ?thesis
          proof (cases "process_rejects co r")
            case None
            with simple res r noq p show ?thesis
              by (intro S_proc_ok[of t c f r p]) (simp_all add: run)
          next
            case (Some e)
            with simple res r noq p show ?thesis
              by (intro S_proc_fail[of t c f r p e]) (simp_all add: run)
          qed
        qed
      qed
    qed
  qed
next
  case async: (EmailEventHandlerWithAsyncData t c f l)
  show ?thesis
  proof (cases "l (events s ev)")
    case (Inl e)
    with async show ?thesis
      by (intro A_load_fail[of t c f l e]) (simp_all add: run)
  next
    case d: (Inr d)
    show ?thesis
    proof (cases "f ((events s ev)\<lparr>data := Some d\<rparr>) (globalTemplateVars (options s))")
      case (Inl e)
      with async d show ?thesis
        by (intro A_fail[of t c f l d e]) (simp_all add: run)
    next
      case res: (Inr res)
      show ?thesis
      proof (cases res)
        case None
        with async d res show ?thesis
          by (intro A_none[of t c f l d]) (simp_all add: run)
      next
        case r: (Some r)
        show ?thesis
        proof (cases "jobQueue s")
          case q: (Some q)
          show ?thesis
          proof (cases "add_rejects co r")
            case None
            with async d res r q show ?thesis
              by (intro A_add_ok[of t c f l d r q]) (simp_all add: run)
          next
            case (Some e)
            with async d res r q show ?thesis
              by (intro A_add_fail[of t c f l d r q e]) (simp_all add: run)
          qed
        next
          case noq: None
          show ?thesis
          proof (cases "testingProcessor s")
            case nop: None
            with async d res r noq show ?thesis
              by (intro A_drop[of t c f l d r]) (simp_all add: run)
          next
            case p: (Some p)
            show ?thesis
            proof (cases "process_rejects co r")
              case None
              with async d res r noq p show ?thesis
                by (intro A_proc_ok[of t c f l d r p]) (simp_all add: run)
            next
              case (Some e)
              with async d res r noq p show ?thesis
                by (intro A_proc_fail[of t c f l d r p e]) (simp_all add: run)
            qed
          qed
        qed
      qed
    qed
  qed
qed

lemmas obs = calls_made_def log_handling_def

subsection \<open>Subscriptions and bootstrap\<close>

lemma subscribe_each_run:
  "subscribe_each hs s =
     (Inr (), s\<lparr>subscriptions := subscriptions s @ map (\<lambda>h. (event h, h)) hs\<rparr>)"
  by (induction hs arbitrary: s) (simp_all add: subscribe_def prog_defs)

lemma setupEventSubscribers_run:
  "setupEventSubscribers s =
     (Inr (), s\<lparr>subscriptions :=
        subscriptions s @ map (\<lambda>h. (event h, h)) (handlers (options s))\<rparr>)"
  by (simp add: setupEventSubscribers_def subscribe_each_run seq_def gets_def)

lemmas boot = onVendureBootstrap_def setupEventSubscribers_run devMailbox_serve_def
  devMailbox_handleMockEvent_def testingProcessor_init_def createQueue_def new_DevMailbox_def

lemma bootstrap_dev_port:
  "options s = EmailPluginDevModeOptions hs g (Some port) \<Longrightarrow>
   onVendureBootstrap co s =
     (Inr (), s\<lparr>devMailbox := Some \<lparr>served = Some port, mockEventHandler = True, destroyed = False\<rparr>,
               jobQueue := Some \<lparr>name = ''send-email'', concurrency = 5,
                                 process = send_email_process co, jobs = []\<rparr>,
               subscriptions := subscriptions s @ map (\<lambda>h. (event h, h)) hs,
               calls := calls s @ [DevMailbox_serve (Some port), DevMailbox_handleMockEvent,
                                   CreateQueue ''send-email'' 5]\<rparr>)"
  by (simp add: boot prog_defs)

lemma bootstrap_dev_no_port:
  "options s = EmailPluginDevModeOptions hs g None \<Longrightarrow>
   onVendureBootstrap co s =
     (Inr (), s\<lparr>jobQueue := Some \<lparr>name = ''send-email'', concurrency = 5,
                                 process = send_email_process co, jobs = []\<rparr>,
               subscriptions := subscriptions s @ map (\<lambda>h. (event h, h)) hs,
               calls := calls s @ [CreateQueue ''send-email'' 5]\<rparr>)"
  by (simp add: boot prog_defs)

lemma bootstrap_queued:
  "options s = EmailPluginOptions hs g tt \<Longrightarrow> tt \<noteq> ''testing'' \<Longrightarrow>
   onVendureBootstrap co s =
     (Inr (), s\<lparr>jobQueue := Some \<lparr>name = ''send-email'', concurrency = 5,
                                 process = send_email_process co, jobs = []\<rparr>,
               subscriptions := subscriptions s @ map (\<lambda>h. (event h, h)) hs,
               calls := calls s @ [CreateQueue ''send-email'' 5]\<rparr>)"
  by (simp add: boot prog_defs)

lemma bootstrap_testing:
  "options s = EmailPluginOptions hs g ''testing'' \<Longrightarrow>
   onVendureBootstrap co s =
     (case init_rejects co of
        None \<Rightarrow>
          (Inr (), s\<lparr>testingProcessor := Some \<lparr>initialized = True\<rparr>,
                    subscriptions := subscriptions s @ map (\<lambda>h. (event h, h)) hs,
                    calls := calls s @ [EmailProcessor_init]\<rparr>)
      | Some e \<Rightarrow>
          (Inl e, s\<lparr>testingProcessor := Some \<lparr>initialized = False\<rparr>,
                    subscriptions := subscriptions s @ map (\<lambda>h. (event h, h)) hs,
                    calls := calls s @ [EmailProcessor_init]\<rparr>))"
  by (simp add: boot prog_defs split: option.splits)

lemma onVendureBootstrap_paths:
  obtains
    (dev_port) hs g port where
      "options s = EmailPluginDevModeOptions hs g (Some port)"
  | (dev_no_port) hs g where
      "options s = EmailPluginDevModeOptions hs g None"
  | (queued) hs g tt where
      "options s = EmailPluginOptions hs g tt" "tt \<noteq> ''testing''"
  | (testing) hs g where
      "options s = EmailPluginOptions hs g ''testing''"
proof (cases "options s")
  case (EmailPluginOptions hs g tt)
  then show ?thesis using queued testing by (cases "tt = ''testing''") auto
next
  case (EmailPluginDevModeOptions hs g port)
  then show ?thesis using dev_port dev_no_port by (cases port) auto
qed

lemmas boots = bootstrap_dev_port bootstrap_dev_no_port bootstrap_queued bootstrap_testing


subsection \<open>The sample systems after bootstrap\<close>

lemma inline_system_eq:
  "inline_system =
     \<lparr>options = testing_options, devMailbox = None, jobQueue = None,
      testingProcessor = Some \<lparr>initialized = True\<rparr>,
      subscriptions = [(''OrderStateTransitionEvent'', confirmation_handler),
                       (''OrderStateTransitionEvent'', shipping_handler)],
      events = (\<lambda>a. order_event), calls = [EmailProcessor_init]\<rparr>"
  by (simp add: inline_system_def new_system_def
      bootstrap_testing[of _ "[confirmation_handler, shipping_handler]" "''vars''"]
      testing_options_def reliable_def confirmation_handler_def shipping_handler_def)

lemma queued_system_eq:
  "queued_system =
     \<lparr>options = smtp_options, devMailbox = None,
      jobQueue = Some \<lparr>name = ''send-email'', concurrency = 5,
                        process = send_email_process reliable, jobs = []\<rparr>,
      testingProcessor = None,
      subscriptions = [(''OrderStateTransitionEvent'', confirmation_handler),
                       (''OrderStateTransitionEvent'', shipping_handler)],
      events = (\<lambda>a. order_event), calls = [CreateQueue ''send-email'' 5]\<rparr>"
  by (simp add: queued_system_def new_system_def
      bootstrap_queued[of _ "[confirmation_handler, shipping_handler]" "''vars''" "''smtp''"]
      smtp_options_def confirmation_handler_def shipping_handler_def)

lemma dev_system_eq:
  "dev_system =
     \<lparr>options = dev_options,
      devMailbox = Some \<lparr>served = Some 5003, mockEventHandler = True, destroyed = False\<rparr>,
      jobQueue = Some \<lparr>name = ''send-email'', concurrency = 5,
                        process = send_email_process reliable, jobs = []\<rparr>,
      testingProcessor = None,
      subscriptions = [(''OrderStateTransitionEvent'', confirmation_handler)],
      events = (\<lambda>a. order_event),
      calls = [DevMailbox_serve (Some 5003), DevMailbox_handleMockEvent,
               CreateQueue ''send-email'' 5]\<rparr>"
  by (simp add: dev_system_def new_system_def
      bootstrap_dev_port[of _ "[confirmation_handler]" "''vars''" 5003]
      dev_options_def confirmation_handler_def)


lemma timeout_system_eq:
  "timeout_system =
     \<lparr>options = timeout_options, devMailbox = None, jobQueue = None,
      testingProcessor = Some \<lparr>initialized = True\<rparr>,
      subscriptions = [(''OrderStateTransitionEvent'', timeout_handler),
                       (''OrderStateTransitionEvent'', confirmation_handler)],
      events = (\<lambda>a. order_event), calls = [EmailProcessor_init]\<rparr>"
  by (simp add: timeout_system_def new_system_def
      bootstrap_testing[of _ "[timeout_handler, confirmation_handler]" "''vars''"]
      timeout_options_def reliable_def confirmation_handler_def timeout_handler_def)

lemmas samples = confirmation_handler_def shipping_handler_def broken_handler_def
  timeout_handler_def string_throwing_handler_def silent_rejecting_def
  crashing_handler_def silent_handler_def reliable_def unreliable_def testing_options_def
  smtp_options_def dev_options_def order_event_def

lemmas eval = run obs samples

text \<open>
  \<^verbatim>\<open>handleEvent\<close> reads the options for the global template variables only.
\<close>

lemma handleEvent_ignores_other_options:
  "globalTemplateVars opts = globalTemplateVars (options s) \<Longrightarrow>
   calls_made (handleEvent co h ev) (s\<lparr>options := opts\<rparr>) = calls_made (handleEvent co h ev) s"
  by (cases rule: handleEvent_paths[of h s ev co]) (simp_all add: run obs)

subsection \<open>What escapes\<close>

text \<open>
  \<^verbatim>\<open>handleEvent\<close> returns normally or raises the \<^verbatim>\<open>TypeError\<close> of its own
  \<^verbatim>\<open>catch\<close> block; it never raises what the loader, the handler or the delivery raised.
\<close>

lemma handleEvent_raises_only_type_error:
  "fst (handleEvent co h ev s) = Inr () \<or> fst (handleEvent co h ev s) = Inl (type_error co)"
  by (cases rule: handleEvent_paths[of h s ev co]) simp_all

text \<open>
  What a failure of the loader, of the handler body or of the delivery ends in: for
  \<^verbatim>\<open>undefined\<close> and \<^verbatim>\<open>null\<close> the \<^verbatim>\<open>TypeError\<close> with nothing logged, for every other
  value a normal return with the \<^verbatim>\<open>Logger.error\<close> entry of its message and stack last.
\<close>

lemma handleEvent_failure_outcome:
  "(\<forall>e0 e. LoadDataFn (type h) ev e0 \<in> set (calls_made (handleEvent co h ev) s) \<and>
      loadDataFn h e0 = Inl e \<longrightarrow>
      (if nullish e
       then fst (handleEvent co h ev s) = Inl (type_error co) \<and>
            filter is_Logger_error (calls_made (handleEvent co h ev) s) = []
       else fst (handleEvent co h ev s) = Inr () \<and>
            last (calls_made (handleEvent co h ev) s) =
              Logger_error (message e) ''EmailPlugin'' (stack e))) \<and>
   (\<forall>e1 e. Handle (type h) ev e1 \<in> set (calls_made (handleEvent co h ev) s) \<and>
      handle h e1 (globalTemplateVars (options s)) = Inl e \<longrightarrow>
      (if nullish e
       then fst (handleEvent co h ev s) = Inl (type_error co) \<and>
            filter is_Logger_error (calls_made (handleEvent co h ev) s) = []
       else fst (handleEvent co h ev s) = Inr () \<and>
            last (calls_made (handleEvent co h ev) s) =
              Logger_error (message e) ''EmailPlugin'' (stack e))) \<and>
   (\<forall>r e. JobQueue_add r \<in> set (calls_made (handleEvent co h ev) s) \<and>
      add_rejects co r = Some e \<longrightarrow>
      (if nullish e
       then fst (handleEvent co h ev s) = Inl (type_error co) \<and>
            filter is_Logger_error (calls_made (handleEvent co h ev) s) = []
       else fst (handleEvent co h ev s) = Inr () \<and>
            last (calls_made (handleEvent co h ev) s) =
              Logger_error (message e) ''EmailPlugin'' (stack e))) \<and>
   (\<forall>r e. EmailProcessor_process r \<in> set (calls_made (handleEvent co h ev) s) \<and>
      process_rejects co r = Some e \<longrightarrow>
      (if nullish e
       then fst (handleEvent co h ev s) = Inl (type_error co) \<and>
            filter is_Logger_error (calls_made (handleEvent co h ev) s) = []
       else fst (handleEvent co h ev s) = Inr () \<and>
            last (calls_made (handleEvent co h ev) s) =
              Logger_error (message e) ''EmailPlugin'' (stack e)))"
  by (cases rule: handleEvent_paths[of h s ev co])
     (auto simp add: obs split: if_splits)

section \<open>The claims\<close>

text \<open>
  Claim C1. The \<^verbatim>\<open>try\<close> block of \<^verbatim>\<open>handleEvent\<close> spans the loader, the handler body
  and the delivery, and its \<^verbatim>\<open>catch\<close> block is meant to log whatever they raise. But the
  \<^verbatim>\<open>catch\<close> block reads \<^verbatim>\<open>e.message\<close> of the caught value: when the loader, registered
  and subscribed, rejects with \<^verbatim>\<open>undefined\<close>, the read raises a \<^verbatim>\<open>TypeError\<close> inside
  the \<^verbatim>\<open>catch\<close> block, which leaves \<^verbatim>\<open>handleEvent\<close> and its subscription callback as
  a raised error with nothing logged. The same happens when the delivery rejects with
  \<^verbatim>\<open>undefined\<close>. A thrown string is caught, but the entry logged for it carries neither
  a message nor a stack.
\<close>

theorem undefined_rejection_escapes_handleEvent:
  "timeout_handler \<in> set (handlers (options timeout_system)) \<and>
   (event timeout_handler, timeout_handler) \<in> set (subscriptions timeout_system) \<and>
   event timeout_handler = eventClass (events timeout_system 0) \<and>
   loadDataFn timeout_handler (events timeout_system 0) = Inl Undefined \<and>
   handleEvent reliable timeout_handler 0 timeout_system =
     (Inl (Error ''Cannot read property message of undefined'' ''at handleEvent''),
      timeout_system\<lparr>calls := calls timeout_system @
        [Logger_debug (''Handling event '' @ [CHR 0x22] @ ''order-shipped'' @ [CHR 0x22])
           ''EmailPlugin'',
         LoadDataFn ''order-shipped'' 0 order_event]\<rparr>) \<and>
   fst (subscription_callback reliable timeout_handler 0 timeout_system) =
     Inl (type_error reliable) \<and>
   filter is_Logger_error (calls_made (handleEvent reliable timeout_handler 0) timeout_system) = [] \<and>
   process_rejects silent_rejecting ''confirm to a@b.com'' = Some Undefined \<and>
   fst (handleEvent silent_rejecting confirmation_handler 0 timeout_system) =
     Inl (type_error silent_rejecting) \<and>
   filter is_Logger_error
     (calls_made (handleEvent silent_rejecting confirmation_handler 0) timeout_system) = [] \<and>
   handle string_throwing_handler (events timeout_system 0)
     (globalTemplateVars (options timeout_system)) = Inl (Value None None) \<and>
   filter is_Logger_error
     (calls_made (handleEvent reliable string_throwing_handler 0) timeout_system) =
     [Logger_error None ''EmailPlugin'' None]"
  by (simp add: eval timeout_system_eq timeout_options_def subscription_callback_def)

text \<open>
  Claim C2, as stated, fails: in inline mode a failure of
  \<^verbatim>\<open>testingProcessor.process\<close> does not reach the caller awaiting \<^verbatim>\<open>handleEvent\<close>.
  On the sample inline system the processor rejects the confirmation email and
  \<^verbatim>\<open>handleEvent\<close> still returns normally.
\<close>

theorem inline_process_failure_not_propagated:
  "jobQueue inline_system = None \<and>
   testingProcessor inline_system = Some \<lparr>initialized = True\<rparr> \<and>
   handle confirmation_handler (events inline_system 0)
     (globalTemplateVars (options inline_system)) = Inr (Some ''confirm to a@b.com'') \<and>
   process_rejects unreliable ''confirm to a@b.com'' = Some (Error ''SMTP down'' ''at process'') \<and>
   EmailProcessor_process ''confirm to a@b.com''
     \<in> set (calls_made (handleEvent unreliable confirmation_handler 0) inline_system) \<and>
   fst (handleEvent unreliable confirmation_handler 0 inline_system) = Inr () \<and>
   fst (handleEvent unreliable confirmation_handler 0 inline_system)
     \<noteq> Inl (Error ''SMTP down'' ''at process'')"
  by (simp add: eval inline_system_eq)

text \<open>
  Claim C2, amended. In inline mode (no job queue, a testing processor), when the handler
  called in the dispatch returned a payload and \<^verbatim>\<open>testingProcessor.process\<close> rejects it
  with an error value \<open>e\<close> (any value but \<^verbatim>\<open>undefined\<close> and \<^verbatim>\<open>null\<close>), the failure is
  caught inside \<^verbatim>\<open>handleEvent\<close>: the dispatch ends with the handler call, the process
  call and the entry \<^verbatim>\<open>Logger.error(e.message, 'EmailPlugin', e.stack)\<close>, and
  \<^verbatim>\<open>handleEvent\<close> returns normally.
\<close>

theorem inline_process_failure_is_caught_and_logged:
  "jobQueue s = None \<Longrightarrow> testingProcessor s = Some p \<Longrightarrow>
   Handle (type h) ev e1 \<in> set (calls_made (handleEvent co h ev) s) \<Longrightarrow>
   handle h e1 (globalTemplateVars (options s)) = Inr (Some r) \<Longrightarrow>
   process_rejects co r = Some e \<Longrightarrow> \<not> nullish e \<Longrightarrow>
   fst (handleEvent co h ev s) = Inr () \<and>
   (\<exists>cs. calls_made (handleEvent co h ev) s =
      cs @ [Handle (type h) ev e1, EmailProcessor_process r,
            Logger_error (message e) ''EmailPlugin'' (stack e)])"
  by (cases rule: handleEvent_paths[of h s ev co])
     (auto simp add: obs split: if_splits)

theorem inline_process_failure_is_caught_and_logged_witness:
  "jobQueue inline_system = None \<and>
   testingProcessor inline_system = Some \<lparr>initialized = True\<rparr> \<and>
   Handle (type confirmation_handler) 0 order_event
     \<in> set (calls_made (handleEvent unreliable confirmation_handler 0) inline_system) \<and>
   handle confirmation_handler order_event (globalTemplateVars (options inline_system)) =
     Inr (Some ''confirm to a@b.com'') \<and>
   process_rejects unreliable ''confirm to a@b.com'' = Some (Error ''SMTP down'' ''at process'') \<and>
   nullish (Error ''SMTP down'' ''at process'') = False \<and>
   fst (handleEvent unreliable confirmation_handler 0 inline_system) = Inr () \<and>
   (\<exists>cs. calls_made (handleEvent unreliable confirmation_handler 0) inline_system =
      cs @ [Handle (type confirmation_handler) 0 order_event,
            EmailProcessor_process ''confirm to a@b.com'',
            Logger_error (Some ''SMTP down'') ''EmailPlugin'' (Some ''at process'')])"
proof -
  have q: "jobQueue inline_system = None"
    and p: "testingProcessor inline_system = Some \<lparr>initialized = True\<rparr>"
    by (simp_all add: inline_system_eq)
  have called: "Handle (type confirmation_handler) 0 order_event
      \<in> set (calls_made (handleEvent unreliable confirmation_handler 0) inline_system)"
    by (simp add: eval inline_system_eq)
  have returned: "handle confirmation_handler order_event
      (globalTemplateVars (options inline_system)) = Inr (Some ''confirm to a@b.com'')"
    by (simp add: samples)
  have rejected: "process_rejects unreliable ''confirm to a@b.com'' =
      Some (Error ''SMTP down'' ''at process'')"
    by (simp add: samples)
  have object: "\<not> nullish (Error ''SMTP down'' ''at process'')"
    by simp
  from inline_process_failure_is_caught_and_logged[OF q p called returned rejected object]
  have "fst (handleEvent unreliable confirmation_handler 0 inline_system) = Inr () \<and>
    (\<exists>cs. calls_made (handleEvent unreliable confirmation_handler 0) inline_system =
       cs @ [Handle (type confirmation_handler) 0 order_event,
             EmailProcessor_process ''confirm to a@b.com'',
             Logger_error (Some ''SMTP down'') ''EmailPlugin'' (Some ''at process'')])"
    by simp
  with q p called returned rejected object show ?thesis by simp
qed

text \<open>
  Claim C3, as stated, fails: the subscriptions are one per handler, not one per event
  type. With the two sample handlers, both on \<^verbatim>\<open>OrderStateTransitionEvent\<close>, there is one
  distinct event type and \<^verbatim>\<open>setupEventSubscribers\<close> leaves two subscriptions.
\<close>

theorem two_handlers_one_event_type_two_subscriptions:
  "handlers (options (new_system smtp_options)) = [confirmation_handler, shipping_handler] \<and>
   map event (handlers (options (new_system smtp_options))) =
     [''OrderStateTransitionEvent'', ''OrderStateTransitionEvent''] \<and>
   length (remdups (map event (handlers (options (new_system smtp_options))))) = 1 \<and>
   subscriptions (new_system smtp_options) = [] \<and>
   length (subscriptions (snd (setupEventSubscribers (new_system smtp_options)))) = 2"
  by (simp add: setupEventSubscribers_run new_system_def samples)

text \<open>
  Claim C3, amended. \<^verbatim>\<open>setupEventSubscribers\<close> returns normally and adds exactly one
  subscription per configured handler, in the handlers' order, each filtered on its
  handler's event class and bound to that handler. So the number of new subscriptions is
  the number of handlers; it is the number of distinct event classes exactly when no two
  handlers share an event class.
\<close>

theorem setupEventSubscribers_one_subscription_per_handler:
  "setupEventSubscribers s =
     (Inr (), s\<lparr>subscriptions :=
        subscriptions s @ map (\<lambda>h. (event h, h)) (handlers (options s))\<rparr>) \<and>
   length (subscriptions (snd (setupEventSubscribers s))) =
     length (subscriptions s) + length (handlers (options s)) \<and>
   (length (subscriptions (snd (setupEventSubscribers s))) =
      length (subscriptions s) + length (remdups (map event (handlers (options s))))
    \<longleftrightarrow> distinct (map event (handlers (options s))))"
proof -
  have "length xs = length (remdups xs) \<longleftrightarrow> distinct xs" for xs :: "string list"
    by (metis distinct_remdups length_remdups_eq remdups_id_iff_distinct)
  from this[of "map event (handlers (options s))"] show ?thesis
    by (simp add: setupEventSubscribers_run)
qed

theorem setupEventSubscribers_one_subscription_per_handler_witness:
  "length (subscriptions (snd (setupEventSubscribers (new_system smtp_options)))) =
     length (subscriptions (new_system smtp_options)) +
     length (handlers (options (new_system smtp_options))) \<and>
   length (handlers (options (new_system smtp_options))) = 2 \<and>
   subscriptions (snd (setupEventSubscribers (new_system smtp_options))) =
     [(''OrderStateTransitionEvent'', confirmation_handler),
      (''OrderStateTransitionEvent'', shipping_handler)]"
proof -
  note run = setupEventSubscribers_one_subscription_per_handler[of "new_system smtp_options"]
  have two: "handlers (options (new_system smtp_options)) =
      [confirmation_handler, shipping_handler]"
    by (simp add: new_system_def smtp_options_def)
  have none: "subscriptions (new_system smtp_options) = []"
    by (simp add: new_system_def)
  have "subscriptions (snd (setupEventSubscribers (new_system smtp_options))) =
      [(event confirmation_handler, confirmation_handler),
       (event shipping_handler, shipping_handler)]"
    using run by (simp add: two none)
  then show ?thesis
    using run two by (simp add: confirmation_handler_def shipping_handler_def)
qed

text \<open>
  Claim C4. For a handler with async data the loader is called first, on the event as
  received, and the handler body is called only after the loader resolved, on the event
  with the loaded data assigned. When the loader fails, the handler body is not called,
  nothing is delivered, the event and the queue are untouched, and the dispatch is the
  debug entry and the loader call followed by what the \<^verbatim>\<open>catch\<close> block does with the
  loader's error \<open>e\<close>: the entry \<^verbatim>\<open>Logger.error(e.message, 'EmailPlugin', e.stack)\<close> and
  a normal return, or, when \<open>e\<close> is \<^verbatim>\<open>undefined\<close> or \<^verbatim>\<open>null\<close>, no entry and the
  \<^verbatim>\<open>TypeError\<close> of the property read. A failure of the handler body ends in the same
  \<^verbatim>\<open>catch\<close> block, with the same outcome.
\<close>

theorem loader_completes_before_handle_and_its_failure_skips_it:
  "h = EmailEventHandlerWithAsyncData t c f l \<Longrightarrow>
   (\<forall>e. l (events s ev) = Inl e \<longrightarrow>
      handleEvent co h ev s =
        (if nullish e
         then (Inl (type_error co),
               s\<lparr>calls := calls s @ [log_handling h, LoadDataFn t ev (events s ev)]\<rparr>)
         else (Inr (),
               s\<lparr>calls := calls s @
                  [log_handling h, LoadDataFn t ev (events s ev),
                   Logger_error (message e) ''EmailPlugin'' (stack e)]\<rparr>)) \<and>
      filter is_Handle (calls_made (handleEvent co h ev) s) = [] \<and>
      filter is_delivery (calls_made (handleEvent co h ev) s) = [] \<and>
      events (snd (handleEvent co h ev s)) = events s \<and>
      jobQueue (snd (handleEvent co h ev s)) = jobQueue s) \<and>
   (\<forall>d. l (events s ev) = Inr d \<longrightarrow>
      (\<exists>cs. calls_made (handleEvent co h ev) s =
         [log_handling h, LoadDataFn t ev (events s ev),
          Handle t ev ((events s ev)\<lparr>data := Some d\<rparr>)] @ cs \<and>
         filter is_Handle cs = [] \<and> filter is_LoadDataFn cs = [])) \<and>
   (\<forall>d e. l (events s ev) = Inr d \<and>
      f ((events s ev)\<lparr>data := Some d\<rparr>) (globalTemplateVars (options s)) = Inl e \<longrightarrow>
      fst (handleEvent co h ev s) = (if nullish e then Inl (type_error co) else Inr ()) \<and>
      calls_made (handleEvent co h ev) s =
        [log_handling h, LoadDataFn t ev (events s ev),
         Handle t ev ((events s ev)\<lparr>data := Some d\<rparr>)] @
        (if nullish e then [] else [Logger_error (message e) ''EmailPlugin'' (stack e)]))"
  by (cases rule: handleEvent_paths[of h s ev co]) (simp_all add: obs)

theorem loader_completes_before_handle_and_its_failure_skips_it_witness:
  "loadDataFn broken_handler (events inline_system 0) =
     Inl (Error ''DependencyNotFound'' ''at inject'') \<and>
   handleEvent reliable broken_handler 0 inline_system =
     (Inr (), inline_system\<lparr>calls := calls inline_system @
        [log_handling broken_handler, LoadDataFn ''order-shipped'' 0 (events inline_system 0),
         Logger_error (Some ''DependencyNotFound'') ''EmailPlugin'' (Some ''at inject'')]\<rparr>) \<and>
   filter is_Handle (calls_made (handleEvent reliable broken_handler 0) inline_system) = [] \<and>
   filter is_delivery (calls_made (handleEvent reliable broken_handler 0) inline_system) = [] \<and>
   loadDataFn timeout_handler (events inline_system 0) = Inl Undefined \<and>
   handleEvent reliable timeout_handler 0 inline_system =
     (Inl (type_error reliable), inline_system\<lparr>calls := calls inline_system @
        [log_handling timeout_handler,
         LoadDataFn ''order-shipped'' 0 (events inline_system 0)]\<rparr>) \<and>
   filter is_Handle (calls_made (handleEvent reliable timeout_handler 0) inline_system) = [] \<and>
   loadDataFn shipping_handler (events inline_system 0) = Inr ''parcel 7'' \<and>
   take 3 (calls_made (handleEvent reliable shipping_handler 0) inline_system) =
     [log_handling shipping_handler, LoadDataFn ''order-shipped'' 0 (events inline_system 0),
      Handle ''order-shipped'' 0 ((events inline_system 0)\<lparr>data := Some ''parcel 7''\<rparr>)]"
proof -
  have broken: "broken_handler =
      EmailEventHandlerWithAsyncData ''order-shipped'' ''OrderStateTransitionEvent''
        (\<lambda>e g. Inr (Some ''shipped'')) (\<lambda>e. Inl (Error ''DependencyNotFound'' ''at inject''))"
    by (simp add: broken_handler_def)
  have timeout: "timeout_handler =
      EmailEventHandlerWithAsyncData ''order-shipped'' ''OrderStateTransitionEvent''
        (\<lambda>e g. Inr (Some ''shipped'')) (\<lambda>e. Inl Undefined)"
    by (simp add: timeout_handler_def)
  have shipping: "shipping_handler =
      EmailEventHandlerWithAsyncData ''order-shipped'' ''OrderStateTransitionEvent''
        (\<lambda>e g. Inr (map_option (\<lambda>d. ''shipped: '' @ d) (data e))) (\<lambda>e. Inr ''parcel 7'')"
    by (simp add: shipping_handler_def)
  have fails: "loadDataFn broken_handler (events inline_system 0) =
      Inl (Error ''DependencyNotFound'' ''at inject'')"
    by (simp add: broken_handler_def)
  have gives_up: "loadDataFn timeout_handler (events inline_system 0) = Inl Undefined"
    by (simp add: timeout_handler_def)
  have loads: "loadDataFn shipping_handler (events inline_system 0) = Inr ''parcel 7''"
    by (simp add: shipping_handler_def)
  note a = loader_completes_before_handle_and_its_failure_skips_it
    [OF broken, where s = inline_system and ev = 0 and co = reliable]
  note b = loader_completes_before_handle_and_its_failure_skips_it
    [OF shipping, where s = inline_system and ev = 0 and co = reliable]
  note c = loader_completes_before_handle_and_its_failure_skips_it
    [OF timeout, where s = inline_system and ev = 0 and co = reliable]
  from a fails have 1:
    "handleEvent reliable broken_handler 0 inline_system =
       (Inr (), inline_system\<lparr>calls := calls inline_system @
          [log_handling broken_handler, LoadDataFn ''order-shipped'' 0 (events inline_system 0),
           Logger_error (Some ''DependencyNotFound'') ''EmailPlugin'' (Some ''at inject'')]\<rparr>) \<and>
     filter is_Handle (calls_made (handleEvent reliable broken_handler 0) inline_system) = [] \<and>
     filter is_delivery (calls_made (handleEvent reliable broken_handler 0) inline_system) = []"
    by (simp add: broken_handler_def)
  from c gives_up have 3:
    "handleEvent reliable timeout_handler 0 inline_system =
       (Inl (type_error reliable), inline_system\<lparr>calls := calls inline_system @
          [log_handling timeout_handler,
           LoadDataFn ''order-shipped'' 0 (events inline_system 0)]\<rparr>) \<and>
     filter is_Handle (calls_made (handleEvent reliable timeout_handler 0) inline_system) = []"
    by (simp add: timeout_handler_def)
  from b loads obtain cs where
    "calls_made (handleEvent reliable shipping_handler 0) inline_system =
       [log_handling shipping_handler, LoadDataFn ''order-shipped'' 0 (events inline_system 0),
        Handle ''order-shipped'' 0 ((events inline_system 0)\<lparr>data := Some ''parcel 7''\<rparr>)] @ cs"
    by (auto simp add: shipping_handler_def)
  then have 2: "take 3 (calls_made (handleEvent reliable shipping_handler 0) inline_system) =
     [log_handling shipping_handler, LoadDataFn ''order-shipped'' 0 (events inline_system 0),
      Handle ''order-shipped'' 0 ((events inline_system 0)\<lparr>data := Some ''parcel 7''\<rparr>)]"
    by simp
  from fails gives_up loads 1 2 3 show ?thesis by blast
qed




text \<open>
  Claim C6. Bootstrap of a freshly constructed plugin creates exactly one delivery backend,
  whatever the collaborators answer: the testing processor when the options are not
  dev-mode options and the transport type is \<^verbatim>\<open>'testing'\<close>, the job queue otherwise.
  Afterwards, in any state, \<^verbatim>\<open>handleEvent\<close> keeps the testing processor and the presence
  of the queue as they are, adds to the queue only when there is one, calls the processor
  only when there is no queue and there is a processor, and makes the same calls whatever
  the options then say beyond the global template variables: the backend is not chosen
  again from the configuration.
\<close>

theorem exactly_one_delivery_backend_chosen_at_bootstrap:
  "constructed s \<Longrightarrow>
   (testingProcessor (snd (onVendureBootstrap co s)) \<noteq> None \<longleftrightarrow>
      \<not> isDevModeOptions (options s) \<and> transportType (options s) = ''testing'') \<and>
   (jobQueue (snd (onVendureBootstrap co s)) \<noteq> None \<longleftrightarrow>
      \<not> (\<not> isDevModeOptions (options s) \<and> transportType (options s) = ''testing'')) \<and>
   (jobQueue (snd (onVendureBootstrap co s)) = None \<longleftrightarrow>
      testingProcessor (snd (onVendureBootstrap co s)) \<noteq> None) \<and>
   testingProcessor (snd (handleEvent co h ev s')) = testingProcessor s' \<and>
   (jobQueue (snd (handleEvent co h ev s')) = None \<longleftrightarrow> jobQueue s' = None) \<and>
   (\<forall>r. JobQueue_add r \<in> set (calls_made (handleEvent co h ev) s') \<longrightarrow>
      jobQueue s' \<noteq> None) \<and>
   (\<forall>r. EmailProcessor_process r \<in> set (calls_made (handleEvent co h ev) s') \<longrightarrow>
      jobQueue s' = None \<and> testingProcessor s' \<noteq> None) \<and>
   (\<forall>opts. globalTemplateVars opts = globalTemplateVars (options s') \<longrightarrow>
      calls_made (handleEvent co h ev) (s'\<lparr>options := opts\<rparr>) =
      calls_made (handleEvent co h ev) s')"
proof -
  assume fresh: "constructed s"
  have boot:
    "(testingProcessor (snd (onVendureBootstrap co s)) \<noteq> None \<longleftrightarrow>
        \<not> isDevModeOptions (options s) \<and> transportType (options s) = ''testing'') \<and>
     (jobQueue (snd (onVendureBootstrap co s)) \<noteq> None \<longleftrightarrow>
        \<not> (\<not> isDevModeOptions (options s) \<and> transportType (options s) = ''testing'')) \<and>
     (jobQueue (snd (onVendureBootstrap co s)) = None \<longleftrightarrow>
        testingProcessor (snd (onVendureBootstrap co s)) \<noteq> None)"
    using fresh
    by (cases rule: onVendureBootstrap_paths[of s])
       (simp_all add: boots constructed_def split: option.splits)
  have dispatch:
    "testingProcessor (snd (handleEvent co h ev s')) = testingProcessor s' \<and>
     (jobQueue (snd (handleEvent co h ev s')) = None \<longleftrightarrow> jobQueue s' = None) \<and>
     (\<forall>r. JobQueue_add r \<in> set (calls_made (handleEvent co h ev) s') \<longrightarrow>
        jobQueue s' \<noteq> None) \<and>
     (\<forall>r. EmailProcessor_process r \<in> set (calls_made (handleEvent co h ev) s') \<longrightarrow>
        jobQueue s' = None \<and> testingProcessor s' \<noteq> None)"
    by (cases rule: handleEvent_paths[of h s' ev co]) (simp_all add: obs)
  from boot dispatch handleEvent_ignores_other_options[of _ s' co h ev]
  show ?thesis by blast
qed

theorem exactly_one_delivery_backend_chosen_at_bootstrap_witness:
  "constructed (new_system testing_options) \<and>
   (\<not> isDevModeOptions testing_options \<and> transportType testing_options = ''testing'') \<and>
   testingProcessor (snd (onVendureBootstrap reliable (new_system testing_options))) \<noteq> None \<and>
   jobQueue (snd (onVendureBootstrap reliable (new_system testing_options))) = None \<and>
   EmailProcessor_process ''confirm to a@b.com''
     \<in> set (calls_made (handleEvent reliable confirmation_handler 0) inline_system) \<and>
   jobQueue inline_system = None \<and>
   testingProcessor inline_system \<noteq> None \<and>
   globalTemplateVars smtp_options = globalTemplateVars (options inline_system) \<and>
   calls_made (handleEvent reliable confirmation_handler 0)
     (inline_system\<lparr>options := smtp_options\<rparr>) =
   calls_made (handleEvent reliable confirmation_handler 0) inline_system"
proof -
  have fresh: "constructed (new_system testing_options)"
    by (simp add: constructed_def new_system_def)
  have opts: "options (new_system testing_options) = testing_options"
    by (simp add: new_system_def)
  have testing: "\<not> isDevModeOptions testing_options \<and> transportType testing_options = ''testing''"
    by (simp add: testing_options_def)
  have processed: "EmailProcessor_process ''confirm to a@b.com''
      \<in> set (calls_made (handleEvent reliable confirmation_handler 0) inline_system)"
    by (simp add: eval inline_system_eq)
  have vars: "globalTemplateVars smtp_options = globalTemplateVars (options inline_system)"
    by (simp add: inline_system_eq smtp_options_def testing_options_def)
  note t = exactly_one_delivery_backend_chosen_at_bootstrap
    [OF fresh, where co = reliable and h = confirmation_handler and ev = 0
      and s' = inline_system]
  from t testing opts have 1:
    "testingProcessor (snd (onVendureBootstrap reliable (new_system testing_options))) \<noteq> None \<and>
     jobQueue (snd (onVendureBootstrap reliable (new_system testing_options))) = None"
    by simp
  from t processed have 2: "jobQueue inline_system = None \<and> testingProcessor inline_system \<noteq> None"
    by blast
  from t vars have 3: "calls_made (handleEvent reliable confirmation_handler 0)
       (inline_system\<lparr>options := smtp_options\<rparr>) =
     calls_made (handleEvent reliable confirmation_handler 0) inline_system"
    by blast
  from fresh testing 1 processed 2 vars 3 show ?thesis by blast
qed

text \<open>
  Claim C7. In queued mode (the options do not ask for the testing transport) bootstrap of
  a freshly constructed plugin returns normally and calls \<^verbatim>\<open>createQueue\<close> exactly once,
  with name \<^verbatim>\<open>'send-email'\<close>, concurrency 5 and the process callback; no testing
  processor is created. While the plugin has that queue, every payload a handler returns
  is handed to \<^verbatim>\<open>jobQueue.add\<close> and to nothing else, the queue gains a pending job with
  the payload when \<^verbatim>\<open>add\<close> resolves, and the queue keeps its name, concurrency and
  callback. The callback sends the job's data to the worker in one message, and a pending
  job ends completed exactly when the worker's observable completes, failed with \<open>err\<close>
  exactly when it errors with \<open>err\<close>, and stays pending exactly when it does neither.
\<close>

theorem queued_mode_single_queue:
  "constructed s \<Longrightarrow>
   \<not> (\<not> isDevModeOptions (options s) \<and> transportType (options s) = ''testing'') \<Longrightarrow>
   fst (onVendureBootstrap co s) = Inr () \<and>
   filter is_CreateQueue (calls_made (onVendureBootstrap co) s) = [CreateQueue ''send-email'' 5] \<and>
   jobQueue (snd (onVendureBootstrap co s)) =
     Some \<lparr>name = ''send-email'', concurrency = 5, process = send_email_process co, jobs = []\<rparr> \<and>
   testingProcessor (snd (onVendureBootstrap co s)) = None \<and>
   (\<forall>q. jobQueue s' = Some q \<longrightarrow>
      (\<forall>e1 r. Handle (type h) ev e1 \<in> set (calls_made (handleEvent co h ev) s') \<and>
         handle h e1 (globalTemplateVars (options s')) = Inr (Some r) \<longrightarrow>
         filter is_delivery (calls_made (handleEvent co h ev) s') = [JobQueue_add r] \<and>
         jobQueue (snd (handleEvent co h ev s')) =
           (case add_rejects co r of
              None \<Rightarrow> Some (q\<lparr>jobs := jobs q @ [\<lparr>job_data = r, job_state = PENDING\<rparr>]\<rparr>)
            | Some e \<Rightarrow> Some q)) \<and>
      (\<exists>q'. jobQueue (snd (handleEvent co h ev s')) = Some q' \<and> name q' = name q \<and>
         concurrency q' = concurrency q \<and> process q' = process q)) \<and>
   fst (send_email_process co job) = [EmailWorkerMessage (job_data job)] \<and>
   job_data (snd (send_email_process co job)) = job_data job \<and>
   (job_state job = PENDING \<longrightarrow>
      (job_state (snd (send_email_process co job)) = COMPLETED \<longleftrightarrow>
         send_outcome co (EmailWorkerMessage (job_data job)) = Completes) \<and>
      (\<forall>err. job_state (snd (send_email_process co job)) = FAILED err \<longleftrightarrow>
         send_outcome co (EmailWorkerMessage (job_data job)) = Errors err) \<and>
      (job_state (snd (send_email_process co job)) = PENDING \<longleftrightarrow>
         send_outcome co (EmailWorkerMessage (job_data job)) = Pending))"
proof -
  assume fresh: "constructed s"
    and queued: "\<not> (\<not> isDevModeOptions (options s) \<and> transportType (options s) = ''testing'')"
  have boot:
    "fst (onVendureBootstrap co s) = Inr () \<and>
     filter is_CreateQueue (calls_made (onVendureBootstrap co) s) = [CreateQueue ''send-email'' 5] \<and>
     jobQueue (snd (onVendureBootstrap co s)) =
       Some \<lparr>name = ''send-email'', concurrency = 5, process = send_email_process co, jobs = []\<rparr> \<and>
     testingProcessor (snd (onVendureBootstrap co s)) = None"
    using fresh queued
    by (cases rule: onVendureBootstrap_paths[of s])
       (simp_all add: boots constructed_def calls_made_def)
  have dispatch:
    "\<forall>q. jobQueue s' = Some q \<longrightarrow>
      (\<forall>e1 r. Handle (type h) ev e1 \<in> set (calls_made (handleEvent co h ev) s') \<and>
         handle h e1 (globalTemplateVars (options s')) = Inr (Some r) \<longrightarrow>
         filter is_delivery (calls_made (handleEvent co h ev) s') = [JobQueue_add r] \<and>
         jobQueue (snd (handleEvent co h ev s')) =
           (case add_rejects co r of
              None \<Rightarrow> Some (q\<lparr>jobs := jobs q @ [\<lparr>job_data = r, job_state = PENDING\<rparr>]\<rparr>)
            | Some e \<Rightarrow> Some q)) \<and>
      (\<exists>q'. jobQueue (snd (handleEvent co h ev s')) = Some q' \<and> name q' = name q \<and>
         concurrency q' = concurrency q \<and> process q' = process q)"
    by (cases rule: handleEvent_paths[of h s' ev co]) (simp_all add: obs)
  have worker:
    "fst (send_email_process co job) = [EmailWorkerMessage (job_data job)] \<and>
     job_data (snd (send_email_process co job)) = job_data job \<and>
     (job_state job = PENDING \<longrightarrow>
        (job_state (snd (send_email_process co job)) = COMPLETED \<longleftrightarrow>
           send_outcome co (EmailWorkerMessage (job_data job)) = Completes) \<and>
        (\<forall>err. job_state (snd (send_email_process co job)) = FAILED err \<longleftrightarrow>
           send_outcome co (EmailWorkerMessage (job_data job)) = Errors err) \<and>
        (job_state (snd (send_email_process co job)) = PENDING \<longleftrightarrow>
           send_outcome co (EmailWorkerMessage (job_data job)) = Pending))"
    by (cases "send_outcome co (EmailWorkerMessage (job_data job))")
       (auto simp add: send_email_process_def)
  from boot dispatch worker show ?thesis by blast
qed

theorem queued_mode_single_queue_witness:
  "constructed (new_system smtp_options) \<and>
   isDevModeOptions smtp_options = False \<and> transportType smtp_options = ''smtp'' \<and>
   fst (onVendureBootstrap reliable (new_system smtp_options)) = Inr () \<and>
   filter is_CreateQueue (calls_made (onVendureBootstrap reliable) (new_system smtp_options)) =
     [CreateQueue ''send-email'' 5] \<and>
   jobQueue queued_system =
     Some \<lparr>name = ''send-email'', concurrency = 5, process = send_email_process reliable,
           jobs = []\<rparr> \<and>
   (Handle (type confirmation_handler) 0 order_event
      \<in> set (calls_made (handleEvent reliable confirmation_handler 0) queued_system) \<and>
    handle confirmation_handler order_event (globalTemplateVars (options queued_system)) =
      Inr (Some ''confirm to a@b.com'')) \<and>
   filter is_delivery (calls_made (handleEvent reliable confirmation_handler 0) queued_system) =
     [JobQueue_add ''confirm to a@b.com''] \<and>
   jobQueue (snd (handleEvent reliable confirmation_handler 0 queued_system)) =
     Some \<lparr>name = ''send-email'', concurrency = 5, process = send_email_process reliable,
           jobs = [\<lparr>job_data = ''confirm to a@b.com'', job_state = PENDING\<rparr>]\<rparr> \<and>
   job_state (snd (send_email_process reliable
     \<lparr>job_data = ''confirm to a@b.com'', job_state = PENDING\<rparr>)) = COMPLETED"
proof -
  have fresh: "constructed (new_system smtp_options)"
    by (simp add: constructed_def new_system_def)
  have opts: "options (new_system smtp_options) = smtp_options"
    by (simp add: new_system_def)
  have smtp: "isDevModeOptions smtp_options = False \<and> transportType smtp_options = ''smtp''"
    by (simp add: smtp_options_def)
  then have queued: "\<not> (\<not> isDevModeOptions (options (new_system smtp_options)) \<and>
      transportType (options (new_system smtp_options)) = ''testing'')"
    by (simp add: opts)
  note t = queued_mode_single_queue
    [OF fresh queued, where co = reliable and h = confirmation_handler and ev = 0
      and s' = queued_system
      and job = "\<lparr>job_data = ''confirm to a@b.com'', job_state = PENDING\<rparr>"]
  from t have 1:
    "fst (onVendureBootstrap reliable (new_system smtp_options)) = Inr () \<and>
     filter is_CreateQueue (calls_made (onVendureBootstrap reliable) (new_system smtp_options)) =
       [CreateQueue ''send-email'' 5] \<and>
     jobQueue queued_system =
       Some \<lparr>name = ''send-email'', concurrency = 5, process = send_email_process reliable,
             jobs = []\<rparr>"
    by (simp add: queued_system_def)
  have returned:
    "Handle (type confirmation_handler) 0 order_event
       \<in> set (calls_made (handleEvent reliable confirmation_handler 0) queued_system) \<and>
     handle confirmation_handler order_event (globalTemplateVars (options queued_system)) =
       Inr (Some ''confirm to a@b.com'')"
    by (simp add: eval queued_system_eq)
  have accepted: "add_rejects reliable ''confirm to a@b.com'' = None"
    by (simp add: reliable_def)
  from t 1 returned have
    "filter is_delivery (calls_made (handleEvent reliable confirmation_handler 0) queued_system) =
       [JobQueue_add ''confirm to a@b.com''] \<and>
     jobQueue (snd (handleEvent reliable confirmation_handler 0 queued_system)) =
       (case add_rejects reliable ''confirm to a@b.com'' of
          None \<Rightarrow> Some (\<lparr>name = ''send-email'', concurrency = 5,
                          process = send_email_process reliable, jobs = []\<rparr>
                         \<lparr>jobs := jobs \<lparr>name = ''send-email'', concurrency = 5,
                             process = send_email_process reliable, jobs = []\<rparr> @
                           [\<lparr>job_data = ''confirm to a@b.com'', job_state = PENDING\<rparr>]\<rparr>)
        | Some e \<Rightarrow> Some \<lparr>name = ''send-email'', concurrency = 5,
                            process = send_email_process reliable, jobs = []\<rparr>)"
    by blast
  then have 2:
    "filter is_delivery (calls_made (handleEvent reliable confirmation_handler 0) queued_system) =
       [JobQueue_add ''confirm to a@b.com''] \<and>
     jobQueue (snd (handleEvent reliable confirmation_handler 0 queued_system)) =
       Some \<lparr>name = ''send-email'', concurrency = 5, process = send_email_process reliable,
             jobs = [\<lparr>job_data = ''confirm to a@b.com'', job_state = PENDING\<rparr>]\<rparr>"
    by (simp add: accepted)
  have completes: "send_outcome reliable (EmailWorkerMessage ''confirm to a@b.com'') = Completes"
    by (simp add: reliable_def)
  from t completes have 3: "job_state (snd (send_email_process reliable
      \<lparr>job_data = ''confirm to a@b.com'', job_state = PENDING\<rparr>)) = COMPLETED"
    by simp
  from fresh smtp 1 returned 2 3 show ?thesis by blast
qed

text \<open>
  Claim C8. Bootstrap of a freshly constructed plugin creates the dev mailbox exactly when
  the options are dev-mode options with a mailbox port. Then the mailbox is served with
  the options and a mock-event callback is registered, so that a synthetic event runs
  \<^verbatim>\<open>handleEvent\<close>, the very function the subscription callbacks run; otherwise no call
  is made on a dev mailbox and a synthetic event does nothing. A dispatch never changes
  the mailbox, and \<^verbatim>\<open>onVendureClose\<close> calls \<^verbatim>\<open>destroy\<close> on it exactly when there is
  one.
\<close>

theorem dev_mailbox_lifecycle:
  "constructed s \<Longrightarrow>
   (devMailbox (snd (onVendureBootstrap co s)) \<noteq> None \<longleftrightarrow>
      isDevModeOptions (options s) \<and> mailboxPort (options s) \<noteq> None) \<and>
   (isDevModeOptions (options s) \<and> mailboxPort (options s) \<noteq> None \<longrightarrow>
      devMailbox (snd (onVendureBootstrap co s)) =
        Some \<lparr>served = mailboxPort (options s), mockEventHandler = True, destroyed = False\<rparr> \<and>
      filter is_DevMailbox (calls_made (onVendureBootstrap co) s) =
        [DevMailbox_serve (mailboxPort (options s)), DevMailbox_handleMockEvent] \<and>
      triggerMockEvent co h ev (snd (onVendureBootstrap co s)) =
        handleEvent co h ev (snd (onVendureBootstrap co s))) \<and>
   (\<not> (isDevModeOptions (options s) \<and> mailboxPort (options s) \<noteq> None) \<longrightarrow>
      filter is_DevMailbox (calls_made (onVendureBootstrap co) s) = [] \<and>
      triggerMockEvent co h ev (snd (onVendureBootstrap co s)) =
        (Inr (), snd (onVendureBootstrap co s))) \<and>
   mockEvent_callback co h ev = subscription_callback co h ev \<and>
   devMailbox (snd (handleEvent co h ev s')) = devMailbox s' \<and>
   (\<forall>m. devMailbox s' = Some m \<longrightarrow>
      onVendureClose s' =
        (Inr (), s'\<lparr>devMailbox := Some (m\<lparr>destroyed := True\<rparr>),
                    calls := calls s' @ [DevMailbox_destroy]\<rparr>)) \<and>
   (devMailbox s' = None \<longrightarrow> onVendureClose s' = (Inr (), s'))"
proof -
  assume fresh: "constructed s"
  have boot:
    "(devMailbox (snd (onVendureBootstrap co s)) \<noteq> None \<longleftrightarrow>
        isDevModeOptions (options s) \<and> mailboxPort (options s) \<noteq> None) \<and>
     (isDevModeOptions (options s) \<and> mailboxPort (options s) \<noteq> None \<longrightarrow>
        devMailbox (snd (onVendureBootstrap co s)) =
          Some \<lparr>served = mailboxPort (options s), mockEventHandler = True, destroyed = False\<rparr> \<and>
        filter is_DevMailbox (calls_made (onVendureBootstrap co) s) =
          [DevMailbox_serve (mailboxPort (options s)), DevMailbox_handleMockEvent] \<and>
        triggerMockEvent co h ev (snd (onVendureBootstrap co s)) =
          handleEvent co h ev (snd (onVendureBootstrap co s))) \<and>
     (\<not> (isDevModeOptions (options s) \<and> mailboxPort (options s) \<noteq> None) \<longrightarrow>
        filter is_DevMailbox (calls_made (onVendureBootstrap co) s) = [] \<and>
        triggerMockEvent co h ev (snd (onVendureBootstrap co s)) =
          (Inr (), snd (onVendureBootstrap co s)))"
    using fresh
    by (cases rule: onVendureBootstrap_paths[of s])
       (simp_all add: boots constructed_def calls_made_def triggerMockEvent_def
          mockEvent_callback_def seq_def gets_def succeed_def split: option.splits)
  have same: "mockEvent_callback co h ev = subscription_callback co h ev"
    by (simp add: mockEvent_callback_def subscription_callback_def)
  have kept: "devMailbox (snd (handleEvent co h ev s')) = devMailbox s'"
    by (cases rule: handleEvent_paths[of h s' ev co]) simp_all
  have close:
    "(\<forall>m. devMailbox s' = Some m \<longrightarrow>
        onVendureClose s' =
          (Inr (), s'\<lparr>devMailbox := Some (m\<lparr>destroyed := True\<rparr>),
                      calls := calls s' @ [DevMailbox_destroy]\<rparr>)) \<and>
     (devMailbox s' = None \<longrightarrow> onVendureClose s' = (Inr (), s'))"
    by (simp add: onVendureClose_def prog_defs)
  from boot same kept close show ?thesis by blast
qed

theorem dev_mailbox_lifecycle_witness:
  "constructed (new_system dev_options) \<and>
   (isDevModeOptions dev_options \<and> mailboxPort dev_options = Some 5003) \<and>
   devMailbox dev_system =
     Some \<lparr>served = Some 5003, mockEventHandler = True, destroyed = False\<rparr> \<and>
   filter is_DevMailbox (calls_made (onVendureBootstrap reliable) (new_system dev_options)) =
     [DevMailbox_serve (Some 5003), DevMailbox_handleMockEvent] \<and>
   triggerMockEvent reliable confirmation_handler 0 dev_system =
     handleEvent reliable confirmation_handler 0 dev_system \<and>
   onVendureClose dev_system =
     (Inr (), dev_system
        \<lparr>devMailbox := Some \<lparr>served = Some 5003, mockEventHandler = True, destroyed = True\<rparr>,
         calls := calls dev_system @ [DevMailbox_destroy]\<rparr>) \<and>
   constructed (new_system smtp_options) \<and>
   isDevModeOptions smtp_options = False \<and>
   devMailbox queued_system = None \<and>
   onVendureClose queued_system = (Inr (), queued_system)"
proof -
  have fresh: "constructed (new_system dev_options)"
    by (simp add: constructed_def new_system_def)
  have dev: "isDevModeOptions dev_options \<and> mailboxPort dev_options = Some 5003"
    by (simp add: dev_options_def)
  have opts: "options (new_system dev_options) = dev_options"
    by (simp add: new_system_def)
  note t = dev_mailbox_lifecycle
    [OF fresh, where co = reliable and h = confirmation_handler and ev = 0
      and s' = dev_system]
  from t dev opts have 1:
    "devMailbox dev_system =
       Some \<lparr>served = Some 5003, mockEventHandler = True, destroyed = False\<rparr> \<and>
     filter is_DevMailbox (calls_made (onVendureBootstrap reliable) (new_system dev_options)) =
       [DevMailbox_serve (Some 5003), DevMailbox_handleMockEvent] \<and>
     triggerMockEvent reliable confirmation_handler 0 dev_system =
       handleEvent reliable confirmation_handler 0 dev_system"
    by (simp add: dev_system_def)
  from t 1 have 2: "onVendureClose dev_system =
     (Inr (), dev_system
        \<lparr>devMailbox := Some \<lparr>served = Some 5003, mockEventHandler = True, destroyed = True\<rparr>,
         calls := calls dev_system @ [DevMailbox_destroy]\<rparr>)"
    by simp
  have fresh': "constructed (new_system smtp_options)"
    by (simp add: constructed_def new_system_def)
  have smtp: "isDevModeOptions smtp_options = False"
    by (simp add: smtp_options_def)
  have opts': "options (new_system smtp_options) = smtp_options"
    by (simp add: new_system_def)
  note u = dev_mailbox_lifecycle
    [OF fresh', where co = reliable and h = confirmation_handler and ev = 0
      and s' = queued_system]
  from u smtp opts' have 3: "devMailbox queued_system = None"
    by (simp add: queued_system_def)
  from u 3 have 4: "onVendureClose queued_system = (Inr (), queued_system)"
    by blast
  from fresh dev 1 2 fresh' smtp 3 4 show ?thesis by blast
qed

text \<open>
  Claim C9. For a handler with async data whose loader resolves to \<open>d\<close>, the dispatch
  changes the store of event objects at the address of the received event only, and
  there only the \<^verbatim>\<open>data\<close> property, which becomes \<open>d\<close>: the event's class and the fields
  it was published with stay as they were. The assignment is on the received object
  itself: a plain handler dispatched afterwards on the same address is called on the
  event with the loaded data.
\<close>

theorem enrichment_assigns_data_on_the_received_object:
  "h = EmailEventHandlerWithAsyncData t c f l \<Longrightarrow> l (events s ev) = Inr d \<Longrightarrow>
   events (snd (handleEvent co h ev s)) = (events s)(ev := (events s ev)\<lparr>data := Some d\<rparr>) \<and>
   data (events (snd (handleEvent co h ev s)) ev) = Some d \<and>
   eventClass (events (snd (handleEvent co h ev s)) ev) = eventClass (events s ev) \<and>
   baseEvent (events (snd (handleEvent co h ev s)) ev) = baseEvent (events s ev) \<and>
   (\<forall>a. a \<noteq> ev \<longrightarrow> events (snd (handleEvent co h ev s)) a = events s a) \<and>
   take 2 (calls_made (handleEvent co' (EmailEventHandler t' c' f') ev)
             (snd (handleEvent co h ev s))) =
     [log_handling (EmailEventHandler t' c' f'),
      Handle t' ev ((events s ev)\<lparr>data := Some d\<rparr>)]"
proof -
  assume h: "h = EmailEventHandlerWithAsyncData t c f l" and loaded: "l (events s ev) = Inr d"
  have store: "events (snd (handleEvent co h ev s)) =
      (events s)(ev := (events s ev)\<lparr>data := Some d\<rparr>)"
    using h loaded by (cases rule: handleEvent_paths[of h s ev co]) simp_all
  have seen: "take 2 (calls_made (handleEvent co' (EmailEventHandler t' c' f') ev) s2) =
      [log_handling (EmailEventHandler t' c' f'), Handle t' ev (events s2 ev)]" for s2
    by (cases rule: handleEvent_paths[of "EmailEventHandler t' c' f'" s2 ev co'])
       (simp_all add: calls_made_def)
  from store seen[of "snd (handleEvent co h ev s)"] show ?thesis by simp
qed

theorem enrichment_assigns_data_on_the_received_object_witness:
  "loadDataFn shipping_handler (events inline_system 0) = Inr ''parcel 7'' \<and>
   events (snd (handleEvent reliable shipping_handler 0 inline_system)) 0 =
     \<lparr>eventClass = ''OrderStateTransitionEvent'', baseEvent = ''order 1'',
      data = Some ''parcel 7''\<rparr> \<and>
   events (snd (handleEvent reliable shipping_handler 0 inline_system)) 1 =
     events inline_system 1 \<and>
   take 2 (calls_made (handleEvent reliable confirmation_handler 0)
             (snd (handleEvent reliable shipping_handler 0 inline_system))) =
     [log_handling confirmation_handler,
      Handle ''order-confirmation'' 0
        \<lparr>eventClass = ''OrderStateTransitionEvent'', baseEvent = ''order 1'',
         data = Some ''parcel 7''\<rparr>]"
proof -
  have shipping: "shipping_handler =
      EmailEventHandlerWithAsyncData ''order-shipped'' ''OrderStateTransitionEvent''
        (\<lambda>e g. Inr (map_option (\<lambda>d. ''shipped: '' @ d) (data e))) (\<lambda>e. Inr ''parcel 7'')"
    by (simp add: shipping_handler_def)
  have loads: "(\<lambda>e. Inr ''parcel 7'') (events inline_system 0) = Inr ''parcel 7''"
    by simp
  have loads': "loadDataFn shipping_handler (events inline_system 0) = Inr ''parcel 7''"
    by (simp add: shipping_handler_def)
  have ev: "events inline_system 0 = order_event" "events inline_system 1 = order_event"
    by (simp_all add: inline_system_eq)
  note t0 = enrichment_assigns_data_on_the_received_object
    [where h = shipping_handler and t = "''order-shipped''"
      and c = "''OrderStateTransitionEvent''"
      and f = "\<lambda>e g. Inr (map_option (\<lambda>d. ''shipped: '' @ d) (data e))"
      and l = "\<lambda>e. Inr ''parcel 7''" and s = inline_system and ev = 0
      and d = "''parcel 7''" and co = reliable and co' = reliable
      and t' = "''order-confirmation''" and c' = "''OrderStateTransitionEvent''"
      and f' = "\<lambda>e g. Inr (Some ''confirm to a@b.com'')"]
  note t = t0[OF shipping loads]
  from t have store: "events (snd (handleEvent reliable shipping_handler 0 inline_system)) =
      (events inline_system)(0 := order_event\<lparr>data := Some ''parcel 7''\<rparr>)"
    by (simp add: ev)
  from store have 1: "events (snd (handleEvent reliable shipping_handler 0 inline_system)) 0 =
      \<lparr>eventClass = ''OrderStateTransitionEvent'', baseEvent = ''order 1'',
       data = Some ''parcel 7''\<rparr>"
    by (simp add: order_event_def)
  from store have 2: "events (snd (handleEvent reliable shipping_handler 0 inline_system)) 1 =
      events inline_system 1"
    by simp
  from t have 3: "take 2 (calls_made (handleEvent reliable confirmation_handler 0)
             (snd (handleEvent reliable shipping_handler 0 inline_system))) =
     [log_handling confirmation_handler,
      Handle ''order-confirmation'' 0
        \<lparr>eventClass = ''OrderStateTransitionEvent'', baseEvent = ''order 1'',
         data = Some ''parcel 7''\<rparr>]"
    by (simp add: ev order_event_def confirmation_handler_def)
  from loads' 1 2 3 show ?thesis by blast
qed

text \<open>
  Claim C10. When neither the job queue nor the testing processor exists and the handler
  called in the dispatch returns a payload, \<^verbatim>\<open>handleEvent\<close> returns normally with the
  handler call as its last call: the payload is handed to no backend, no error is logged,
  and both backends stay absent.
\<close>

theorem payload_discarded_without_backend:
  "jobQueue s = None \<Longrightarrow> testingProcessor s = None \<Longrightarrow>
   Handle (type h) ev e1 \<in> set (calls_made (handleEvent co h ev) s) \<Longrightarrow>
   handle h e1 (globalTemplateVars (options s)) = Inr (Some r) \<Longrightarrow>
   fst (handleEvent co h ev s) = Inr () \<and>
   last (calls_made (handleEvent co h ev) s) = Handle (type h) ev e1 \<and>
   filter is_delivery (calls_made (handleEvent co h ev) s) = [] \<and>
   filter is_Logger_error (calls_made (handleEvent co h ev) s) = [] \<and>
   jobQueue (snd (handleEvent co h ev s)) = None \<and>
   testingProcessor (snd (handleEvent co h ev s)) = None"
  by (cases rule: handleEvent_paths[of h s ev co])
     (auto simp add: obs split: if_splits)

theorem payload_discarded_without_backend_witness:
  "jobQueue (new_system testing_options) = None \<and>
   testingProcessor (new_system testing_options) = None \<and>
   Handle (type confirmation_handler) 0 order_event
     \<in> set (calls_made (handleEvent reliable confirmation_handler 0)
              (new_system testing_options)) \<and>
   handle confirmation_handler order_event
     (globalTemplateVars (options (new_system testing_options))) =
     Inr (Some ''confirm to a@b.com'') \<and>
   fst (handleEvent reliable confirmation_handler 0 (new_system testing_options)) = Inr () \<and>
   last (calls_made (handleEvent reliable confirmation_handler 0)
     (new_system testing_options)) = Handle (type confirmation_handler) 0 order_event \<and>
   filter is_delivery (calls_made (handleEvent reliable confirmation_handler 0)
     (new_system testing_options)) = [] \<and>
   filter is_Logger_error (calls_made (handleEvent reliable confirmation_handler 0)
     (new_system testing_options)) = []"
proof -
  have q: "jobQueue (new_system testing_options) = None"
    and p: "testingProcessor (new_system testing_options) = None"
    by (simp_all add: new_system_def)
  have called: "Handle (type confirmation_handler) 0 order_event
      \<in> set (calls_made (handleEvent reliable confirmation_handler 0)
               (new_system testing_options))"
    by (simp add: eval new_system_def)
  have returned: "handle confirmation_handler order_event
      (globalTemplateVars (options (new_system testing_options))) =
      Inr (Some ''confirm to a@b.com'')"
    by (simp add: confirmation_handler_def)
  from payload_discarded_without_backend[OF q p called returned] q p called returned
  show ?thesis by blast
qed

end
